theory Spec2Isabelle
  imports Complex_Main "HOL-Library.Char_ord" "HOL-Library.List_Lexorder" "HOL-Library.Multiset"
begin

section \<open>Python values\<close>

text \<open>
  The values that flow through the package (tickers, cached payloads, JSON responses)
  are dynamically typed. They are modelled by one universe of values: \<open>None\<close>,
  booleans, integers, exact fractions (standing for Python floats, rounding
  abstracted), strings, byte strings (\<open>bytes\<close> and \<open>bytearray\<close>), lists, and dictionaries
  as association lists in insertion order.
  Time is a number of seconds (\<open>time.time()\<close> and \<open>datetime.now()\<close> read the same clock).
\<close>

datatype pyval =
    PNone
  | PBool bool
  | PInt int
  | PNum rat
  | PStr string
  | PBytes string
  | PByteArray string
  | PList "pyval list"
  | PDict "(string \<times> pyval) list"

datatype exn = AttributeError | TypeError | KeyError | IndexError | ValueError string | UpstreamError

text \<open>Python truthiness: what \<open>if x:\<close> and \<open>not x\<close> test.\<close>

fun truthy :: "pyval \<Rightarrow> bool" where
  "truthy PNone = False"
| "truthy (PBool b) = b"
| "truthy (PInt i) = (i \<noteq> 0)"
| "truthy (PNum q) = (q \<noteq> 0)"
| "truthy (PStr s) = (s \<noteq> [])"
| "truthy (PBytes b) = (b \<noteq> [])"
| "truthy (PByteArray b) = (b \<noteq> [])"
| "truthy (PList xs) = (xs \<noteq> [])"
| "truthy (PDict kvs) = (kvs \<noteq> [])"

text \<open>\<open>p in s\<close> on strings: \<open>p\<close> occurs in \<open>s\<close> as a contiguous run of characters.\<close>

fun starts_with :: "string \<Rightarrow> string \<Rightarrow> bool" where
  "starts_with [] s = True"
| "starts_with (c # p) [] = False"
| "starts_with (c # p) (d # s) = (c = d \<and> starts_with p s)"

fun py_in :: "string \<Rightarrow> string \<Rightarrow> bool" where
  "py_in p [] = (p = [])"
| "py_in p (d # s) = (starts_with p (d # s) \<or> py_in p s)"

text \<open>
  \<open>bytes.upper()\<close> and \<open>bytearray.upper()\<close>: the ASCII letters a to z are mapped to A to Z,
  every other byte is left as it is. \<open>str.upper()\<close> follows the Unicode case mapping; it
  is not defined here but taken as a parameter \<open>str_upper\<close> wherever the code calls it
  (on ASCII text it is this map).
\<close>

definition upper_char :: "char \<Rightarrow> char" where
  "upper_char c =
     (let n = of_char c :: nat in if 97 \<le> n \<and> n \<le> 122 then char_of (n - 32) else c)"

definition upper :: "string \<Rightarrow> string" where
  "upper s = map upper_char s"

section \<open>config.py\<close>

definition CACHE_EXPIRY :: "(string \<times> rat) list" where
  "CACHE_EXPIRY =
     [(''STOCK_PRICE'', 60 * 60),
      (''HISTORICAL_DATA'', 24 * 60 * 60),
      (''SEC_FILING'', 7 * 24 * 60 * 60)]"

definition SEC_EDGAR_API_LIMIT :: rat where
  "SEC_EDGAR_API_LIMIT = 5"

section \<open>cache/manager.py\<close>

text \<open>
  A cache entry is the dictionary \<open>{'timestamp': ..., 'value': ...}\<close> that \<open>set\<close> writes.
  The backing store is a \<open>diskcache.Cache\<close>, a container of keys with their entries: an
  association list with distinct keys, in insertion order. \<open>self.cache\<close> is \<open>None\<close> when
  the store could not be opened at construction, and the handle on the store otherwise.

  The guard \<open>if not self.cache\<close> of the three methods applies Python's truth test to the
  handle. A \<open>diskcache.Cache\<close> defines \<open>__len__\<close> and no \<open>__bool__\<close>, so the handle of a
  store that holds no entry is falsy, as \<open>None\<close> is.
\<close>

record cache_entry =
  timestamp :: rat
  cvalue :: pyval

type_synonym store = "(string \<times> cache_entry) list"

type_synonym cache_manager = "store option"

text \<open>\<open>not self.cache\<close>\<close>

definition not_cache :: "cache_manager \<Rightarrow> bool" where
  "not_cache c = (case c of None \<Rightarrow> True | Some st \<Rightarrow> st = [])"

text \<open>\<open>Cache.set(key, data)\<close> replaces the entry of the key or adds one; \<open>Cache.delete(key)\<close>.\<close>

fun store_set :: "string \<Rightarrow> cache_entry \<Rightarrow> store \<Rightarrow> store" where
  "store_set k d [] = [(k, d)]"
| "store_set k d ((k', d') # st) =
     (if k' = k then (k, d) # st else (k', d') # store_set k d st)"

definition store_delete :: "string \<Rightarrow> store \<Rightarrow> store" where
  "store_delete k st = filter (\<lambda>kd. fst kd \<noteq> k) st"

definition expiry_time :: "string \<Rightarrow> rat" where
  "expiry_time cache_type =
     (case map_of CACHE_EXPIRY cache_type of None \<Rightarrow> 3600 | Some t \<Rightarrow> t)"

definition cache_get :: "cache_manager \<Rightarrow> rat \<Rightarrow> string \<Rightarrow> string \<Rightarrow> pyval" where
  "cache_get c now key cache_type =
     (if not_cache c then PNone
      else
        (case c of
           None \<Rightarrow> PNone
         | Some st \<Rightarrow>
             (case map_of st key of
                None \<Rightarrow> PNone
              | Some d \<Rightarrow>
                  if now - timestamp d > expiry_time cache_type then PNone else cvalue d)))"

definition cache_set ::
  "cache_manager \<Rightarrow> rat \<Rightarrow> string \<Rightarrow> pyval \<Rightarrow> string \<Rightarrow> bool \<times> cache_manager" where
  "cache_set c now key v cache_type =
     (if not_cache c then (False, c)
      else
        (case c of
           None \<Rightarrow> (False, c)
         | Some st \<Rightarrow> (True, Some (store_set key \<lparr>timestamp = now, cvalue = v\<rparr> st))))"

text \<open>
  \<open>clear(pattern=None)\<close>: the pattern is \<open>None\<close> or a string, and is used as a pattern
  only when truthy (\<open>if pattern:\<close>). \<open>keys_to_delete\<close> is the list of that name in the
  code; the keys are deleted one by one. The result is the boolean that the method
  returns, with the cache after it.
\<close>

definition keys_to_delete :: "string \<Rightarrow> store \<Rightarrow> string list" where
  "keys_to_delete pattern st = filter (\<lambda>k. py_in pattern k) (map fst st)"

fun delete_all :: "string list \<Rightarrow> store \<Rightarrow> store" where
  "delete_all [] st = st"
| "delete_all (key # keys) st = delete_all keys (store_delete key st)"

definition cache_clear :: "cache_manager \<Rightarrow> string option \<Rightarrow> bool \<times> cache_manager" where
  "cache_clear c pattern =
     (if not_cache c then (False, c)
      else
        (case c of
           None \<Rightarrow> (False, c)
         | Some st \<Rightarrow>
             (case pattern of
                None \<Rightarrow> (True, Some [])
              | Some p \<Rightarrow>
                  if p \<noteq> []
                  then (True, Some (delete_all (keys_to_delete p st) st))
                  else (True, Some []))))"

section \<open>yahoo\_finance/api.py: the rate limiter\<close>

record rate_state =
  request_count :: nat
  reset_time :: rat
  last_request_time :: rat

text \<open>
  What one call of \<open>_check_rate_limit\<close> did: the clock reading at its start, the argument
  of the spacing sleep \<open>time.sleep(1.0 - elapsed)\<close> and of the backoff sleep
  \<open>time.sleep(delay)\<close> when they happened, and the clock reading at its end. Sleeping
  is what advances the clock.
\<close>

record acquire =
  started :: rat
  spacing_sleep :: "rat option"
  backoff_sleep :: "nat option"
  finished :: rat

text \<open>The reset of the counter when the window has elapsed.\<close>

definition window_reset :: "rate_state \<Rightarrow> rat \<Rightarrow> rate_state" where
  "window_reset st now =
     (if now \<ge> reset_time st
      then st\<lparr>request_count := 0, reset_time := now + 3600\<rparr>
      else st)"

text \<open>
  \<open>_check_rate_limit\<close> at clock reading \<open>now\<close>: the limiter after the call and what the
  call did. The delay is \<open>min(30, 2 ** (self.request_count // 5))\<close>, with the floor
  division of the code, in whole seconds, slept only when the counter is above 5.
\<close>

definition check_rate_limit :: "rate_state \<Rightarrow> rat \<Rightarrow> rate_state \<times> acquire" where
  "check_rate_limit st now =
     (let st1 = window_reset st now;
          elapsed = now - last_request_time st1;
          spacing = (if elapsed < 1 then Some (1 - elapsed) else None);
          now1 = (case spacing of Some d \<Rightarrow> now + d | None \<Rightarrow> now);
          delay = (if request_count st1 > 5
                   then Some (min 30 (2 ^ (request_count st1 div 5))) else None);
          now2 = (case delay of Some d \<Rightarrow> now1 + of_nat d | None \<Rightarrow> now1)
      in (st1\<lparr>request_count := request_count st1 + 1, last_request_time := now2\<rparr>,
          \<lparr>started = now, spacing_sleep = spacing, backoff_sleep = delay, finished = now2\<rparr>))"

text \<open>
  Consecutive acquires: before each one the caller lets \<open>gap\<close> seconds pass after the
  previous one finished. The run lists what each call of \<open>_check_rate_limit\<close> did, and
  ends with the limiter after the last call.
\<close>

fun acquire_run :: "rate_state \<Rightarrow> rat \<Rightarrow> rat list \<Rightarrow> acquire list \<times> rate_state" where
  "acquire_run st now [] = ([], st)"
| "acquire_run st now (gap # gaps) =
     (let (st', a) = check_rate_limit st (now + gap);
          (rest, final) = acquire_run st' (finished a) gaps
      in (a # rest, final))"

text \<open>The seconds that a sleep lasted, if it happened (it did not: 0).\<close>

definition seconds :: "'a::zero option \<Rightarrow> 'a" where
  "seconds d = (case d of None \<Rightarrow> 0 | Some x \<Rightarrow> x)"

section \<open>validation/validator.py\<close>

fun is_str :: "pyval \<Rightarrow> bool" where
  "is_str (PStr s) = True"
| "is_str v = False"

fun is_dict :: "pyval \<Rightarrow> bool" where
  "is_dict (PDict kvs) = True"
| "is_dict v = False"

text \<open>
  \<open>validate_ticker\<close> raises \<open>ValueError\<close> or returns the uppercased ticker; past the check
  the ticker is a string.
\<close>

definition validate_ticker :: "(string \<Rightarrow> string) \<Rightarrow> pyval \<Rightarrow> exn + string" where
  "validate_ticker str_upper ticker =
     (if \<not> truthy ticker \<or> \<not> is_str ticker
      then Inl (ValueError ''Ticker must be a non-empty string'')
      else (case ticker of PStr s \<Rightarrow> Inr (str_upper s) | _ \<Rightarrow> Inl AttributeError))"

section \<open>sec\_edgar/api.py: extract\_key\_financials\<close>

text \<open>
  The company-facts payload, with the shape of section 6 of the specification: under
  the key \<open>facts\<close>, taxonomies by name; under a taxonomy, concepts by tag; under a
  concept, the key \<open>units\<close> with arrays of entries by unit. A key that the code reads
  with \<open>in\<close> or \<open>.get\<close> may be absent (\<open>None\<close>). Dictionaries are association lists in
  insertion order, with distinct keys.
\<close>

record fact_entry =
  e_form :: "string option"
  e_val :: "rat option"
  e_end :: "string option"
  e_filed :: "string option"

record concept =
  units :: "(string \<times> fact_entry list) list option"

type_synonym taxonomy = "(string \<times> concept) list"

record company_facts =
  facts :: "(string \<times> taxonomy) list option"

text \<open>One element of a series of the result.\<close>

record fin_entry =
  fe_value :: rat
  end_date :: string
  filing_date :: string

record financials =
  fin_ticker :: string
  revenue :: "fin_entry list"
  net_income :: "fin_entry list"
  eps :: "fin_entry list"

definition fin_row :: "fact_entry \<Rightarrow> fin_entry" where
  "fin_row entry =
     \<lparr>fe_value = (case e_val entry of None \<Rightarrow> 0 | Some v \<Rightarrow> v),
      end_date = (case e_end entry of None \<Rightarrow> [] | Some s \<Rightarrow> s),
      filing_date = (case e_filed entry of None \<Rightarrow> [] | Some s \<Rightarrow> s)\<rparr>"

text \<open>\<open>for entry in ...: if entry.get('form') == '10-K': series.append({...})\<close>\<close>

fun append_entries :: "fact_entry list \<Rightarrow> fin_entry list \<Rightarrow> fin_entry list" where
  "append_entries [] series = series"
| "append_entries (entry # entries) series =
     append_entries entries
       (if e_form entry = Some ''10-K'' then series @ [fin_row entry] else series)"

text \<open>\<open>for unit in concept.get('units', {}): for entry in concept['units'][unit]: ...\<close>\<close>

fun append_units ::
  "(string \<times> fact_entry list) list \<Rightarrow> fin_entry list \<Rightarrow> fin_entry list" where
  "append_units [] series = series"
| "append_units ((unit, entries) # us) series = append_units us (append_entries entries series)"

text \<open>\<open>if tag in us_gaap: ...\<close>\<close>

definition append_tag :: "taxonomy \<Rightarrow> string \<Rightarrow> fin_entry list \<Rightarrow> fin_entry list" where
  "append_tag us_gaap tag series =
     (case map_of us_gaap tag of
        None \<Rightarrow> series
      | Some c \<Rightarrow> append_units (case units c of None \<Rightarrow> [] | Some us \<Rightarrow> us) series)"

text \<open>\<open>for rev_key in ['Revenue', 'Revenues', 'SalesRevenueNet']: ...\<close>: no \<open>break\<close>.\<close>

fun revenue_loop :: "taxonomy \<Rightarrow> string list \<Rightarrow> fin_entry list \<Rightarrow> fin_entry list" where
  "revenue_loop us_gaap [] series = series"
| "revenue_loop us_gaap (rev_key # rev_keys) series =
     revenue_loop us_gaap rev_keys (append_tag us_gaap rev_key series)"

definition revenue_tags :: "string list" where
  "revenue_tags = [''Revenue'', ''Revenues'', ''SalesRevenueNet'']"

text \<open>
  \<open>sorted(xs, key=..., reverse=True)\<close>: descending by the key, stable (elements with equal
  keys keep their order). \<open>sort_key\<close> is the stable ascending insertion sort.
\<close>

definition sorted_reverse :: "('a \<Rightarrow> 'k::linorder) \<Rightarrow> 'a list \<Rightarrow> 'a list" where
  "sorted_reverse key xs = rev (sort_key key (rev xs))"

text \<open>
  \<open>extract_key_financials\<close>, from the value that \<open>get_company_facts(ticker)\<close> returned
  (\<open>None\<close> when there are no facts). The result \<open>None\<close> is Python's \<open>None\<close>.
\<close>

definition extract_key_financials :: "string \<Rightarrow> company_facts option \<Rightarrow> financials option" where
  "extract_key_financials ticker facts_result =
     (case facts_result of
        None \<Rightarrow> None
      | Some fs \<Rightarrow>
          (case facts fs of
             None \<Rightarrow> None
           | Some taxonomies \<Rightarrow>
               let fin0 = \<lparr>fin_ticker = ticker, revenue = [], net_income = [], eps = []\<rparr>;
                   fin1 = (case map_of taxonomies ''us-gaap'' of
                             None \<Rightarrow> fin0
                           | Some us_gaap \<Rightarrow>
                               fin0\<lparr>revenue := revenue_loop us_gaap revenue_tags (revenue fin0),
                                    net_income := append_tag us_gaap ''NetIncomeLoss'' (net_income fin0),
                                    eps := append_tag us_gaap ''EarningsPerShareDiluted'' (eps fin0)\<rparr>)
               in Some (fin1\<lparr>revenue := sorted_reverse filing_date (revenue fin1),
                              net_income := sorted_reverse filing_date (net_income fin1),
                              eps := sorted_reverse filing_date (eps fin1)\<rparr>)))"

text \<open>
  The reading of the specification's sentence on revenue tags, for comparison with the
  code: only the first tag of the list that the taxonomy has contributes entries.
\<close>

fun spec_first_matching_tag :: "taxonomy \<Rightarrow> string list \<Rightarrow> fin_entry list" where
  "spec_first_matching_tag us_gaap [] = []"
| "spec_first_matching_tag us_gaap (tag # tags) =
     (case map_of us_gaap tag of
        None \<Rightarrow> spec_first_matching_tag us_gaap tags
      | Some c \<Rightarrow> append_tag us_gaap tag [])"

section \<open>yahoo\_finance/api.py: calculate\_implied\_volatility\<close>

text \<open>
  An options chain as \<open>get_options_chain\<close> returns it: by expiration date, a dictionary
  whose keys \<open>calls\<close> and \<open>puts\<close> hold lists of contract records. Of a contract only the
  field \<open>impliedVolatility\<close> is read; it may be absent.
\<close>

record option_contract =
  contractSymbol :: string
  impliedVolatility :: "rat option"

record chain =
  calls :: "option_contract list option"
  puts :: "option_contract list option"

record expiration_iv =
  calls_iv :: rat
  puts_iv :: rat
  average_iv :: rat

record iv_data =
  iv_symbol :: string
  iv_timestamp :: string
  expirations :: "(string \<times> expiration_iv) list"
  overall_average_iv :: rat

text \<open>
  \<open>for call in chain['calls']: if ... 'impliedVolatility' in call and
  call['impliedVolatility'] > 0: calls_iv.append(call['impliedVolatility'])\<close>
\<close>

fun collect_iv :: "option_contract list \<Rightarrow> rat list \<Rightarrow> rat list" where
  "collect_iv [] ivs = ivs"
| "collect_iv (c # cs) ivs =
     collect_iv cs
       (case impliedVolatility c of
          None \<Rightarrow> ivs
        | Some v \<Rightarrow> if v > 0 then ivs @ [v] else ivs)"

text \<open>\<open>if 'calls' in chain and chain['calls']: ...\<close>\<close>

definition side_iv :: "option_contract list option \<Rightarrow> rat list" where
  "side_iv side = (case side of None \<Rightarrow> [] | Some cs \<Rightarrow> if cs \<noteq> [] then collect_iv cs [] else [])"

text \<open>\<open>sum(xs) / len(xs) if xs else 0\<close>\<close>

definition avg_or_zero :: "rat list \<Rightarrow> rat" where
  "avg_or_zero xs = (if xs \<noteq> [] then sum_list xs / of_nat (length xs) else 0)"

definition expiration_average :: "chain \<Rightarrow> expiration_iv" where
  "expiration_average ch =
     (let calls_ivs = side_iv (calls ch);
          puts_ivs = side_iv (puts ch);
          avg_calls_iv = avg_or_zero calls_ivs;
          avg_puts_iv = avg_or_zero puts_ivs;
          avg_total_iv = (if calls_ivs \<noteq> [] \<or> puts_ivs \<noteq> []
                          then (avg_calls_iv + avg_puts_iv) / 2 else 0)
      in \<lparr>calls_iv = avg_calls_iv, puts_iv = avg_puts_iv, average_iv = avg_total_iv\<rparr>)"

text \<open>
  The loop over the expirations, carrying \<open>all_ivs\<close> and \<open>iv_data['expirations']\<close>
  (the dates of a dictionary are distinct, so each assignment adds an item).
\<close>

fun iv_loop ::
  "(string \<times> chain) list \<Rightarrow> rat list \<times> (string \<times> expiration_iv) list \<Rightarrow>
   rat list \<times> (string \<times> expiration_iv) list" where
  "iv_loop [] acc = acc"
| "iv_loop ((date, ch) # rest) (all_ivs, exps) =
     (let e = expiration_average ch
      in iv_loop rest
           (if average_iv e > 0 then all_ivs @ [average_iv e] else all_ivs,
            exps @ [(date, e)]))"

text \<open>
  The computation of \<open>calculate_implied_volatility\<close> on the options chain it fetched
  (a non-empty dictionary), for the validated ticker and the timestamp string.
\<close>

definition implied_volatility_of :: "string \<Rightarrow> string \<Rightarrow> (string \<times> chain) list \<Rightarrow> iv_data" where
  "implied_volatility_of ticker stamp options_data =
     (let (all_ivs, exps) = iv_loop options_data ([], [])
      in \<lparr>iv_symbol = ticker, iv_timestamp = stamp, expirations = exps,
          overall_average_iv = avg_or_zero all_ivs\<rparr>)"

text \<open>
  The reading of the specification's sentence on a missing side, for comparison with the
  code: the per-expiration figure averages only the sides that have positive values.
\<close>

definition spec_expiration_average :: "chain \<Rightarrow> rat" where
  "spec_expiration_average ch =
     avg_or_zero (map avg_or_zero (filter (\<lambda>ivs. ivs \<noteq> []) [side_iv (calls ch), side_iv (puts ch)]))"

section \<open>Operations on Python values\<close>

text \<open>\<open>d.get(k, default)\<close> on a dictionary.\<close>

definition dict_get :: "(string \<times> pyval) list \<Rightarrow> string \<Rightarrow> pyval \<Rightarrow> pyval" where
  "dict_get kvs k dflt = (case map_of kvs k of None \<Rightarrow> dflt | Some v \<Rightarrow> v)"

text \<open>\<open>k in v\<close> for a string \<open>k\<close>, \<open>v[k]\<close>, \<open>len(v)\<close> and \<open>v[i]\<close>, with the errors Python raises.\<close>

fun py_contains :: "pyval \<Rightarrow> string \<Rightarrow> exn + bool" where
  "py_contains (PDict kvs) k = Inr (map_of kvs k \<noteq> None)"
| "py_contains (PList xs) k = Inr (PStr k \<in> set xs)"
| "py_contains (PStr s) k = Inr (py_in k s)"
| "py_contains v k = Inl TypeError"

fun py_getitem :: "pyval \<Rightarrow> string \<Rightarrow> exn + pyval" where
  "py_getitem (PDict kvs) k = (case map_of kvs k of None \<Rightarrow> Inl KeyError | Some v \<Rightarrow> Inr v)"
| "py_getitem v k = Inl TypeError"

fun py_len :: "pyval \<Rightarrow> exn + nat" where
  "py_len (PList xs) = Inr (length xs)"
| "py_len (PStr s) = Inr (length s)"
| "py_len (PBytes b) = Inr (length b)"
| "py_len (PByteArray b) = Inr (length b)"
| "py_len (PDict kvs) = Inr (length kvs)"
| "py_len v = Inl TypeError"

fun py_index :: "pyval \<Rightarrow> nat \<Rightarrow> exn + pyval" where
  "py_index (PList xs) i = (if i < length xs then Inr (xs ! i) else Inl IndexError)"
| "py_index (PStr s) i = (if i < length s then Inr (PStr [s ! i]) else Inl IndexError)"
| "py_index (PBytes b) i = (if i < length b then Inr (PInt (of_char (b ! i))) else Inl IndexError)"
| "py_index (PByteArray b) i = (if i < length b then Inr (PInt (of_char (b ! i))) else Inl IndexError)"
| "py_index (PDict kvs) i = Inl KeyError"
| "py_index v i = Inl TypeError"

text \<open>\<open>for x in v\<close>: the elements that the loop visits, or the error of a non-iterable.\<close>

fun py_iter :: "pyval \<Rightarrow> exn + pyval list" where
  "py_iter (PList xs) = Inr xs"
| "py_iter (PStr s) = Inr (map (\<lambda>c. PStr [c]) s)"
| "py_iter (PBytes b) = Inr (map (\<lambda>c. PInt (of_char c)) b)"
| "py_iter (PByteArray b) = Inr (map (\<lambda>c. PInt (of_char c)) b)"
| "py_iter (PDict kvs) = Inr (map (\<lambda>kv. PStr (fst kv)) kvs)"
| "py_iter v = Inl TypeError"

text \<open>
  \<open>v.upper()\<close>: strings, \<open>bytes\<close> and \<open>bytearray\<close> have the method; on every other value
  the attribute lookup raises \<open>AttributeError\<close>.
\<close>

fun py_upper :: "(string \<Rightarrow> string) \<Rightarrow> pyval \<Rightarrow> exn + pyval" where
  "py_upper str_upper (PStr s) = Inr (PStr (str_upper s))"
| "py_upper str_upper (PBytes b) = Inr (PBytes (upper b))"
| "py_upper str_upper (PByteArray b) = Inr (PByteArray (upper b))"
| "py_upper str_upper v = Inl AttributeError"

fun has_upper :: "pyval \<Rightarrow> bool" where
  "has_upper (PStr s) = True"
| "has_upper (PBytes b) = True"
| "has_upper (PByteArray b) = True"
| "has_upper v = False"

text \<open>Decimal digits of an integer, and \<open>s.zfill(width)\<close>.\<close>

fun show_nat :: "nat \<Rightarrow> string" where
  "show_nat n = (if n < 10 then [char_of (48 + n)] else show_nat (n div 10) @ [char_of (48 + n mod 10)])"

definition show_int :: "int \<Rightarrow> string" where
  "show_int i = (if i < 0 then CHR ''-'' # show_nat (nat (- i)) else show_nat (nat i))"

definition zfill :: "nat \<Rightarrow> string \<Rightarrow> string" where
  "zfill width s =
     (if width \<le> length s then s
      else (case s of
              c # rest \<Rightarrow>
                if c = CHR ''+'' \<or> c = CHR ''-''
                then c # replicate (width - length s) CHR ''0'' @ rest
                else replicate (width - length s) CHR ''0'' @ s
            | [] \<Rightarrow> replicate width CHR ''0''))"

section \<open>The world outside the package\<close>

text \<open>
  The clock and the requests sent upstream so far. The collaborators are parameters:
  what the market-data library answers for a ticker, what an HTTP GET on a URL answers
  (an exception, or a status code with the outcome of \<open>response.json()\<close>), the ISO
  rendering of a clock reading, \<open>str()\<close> on values other than strings and integers, and
  \<open>str.upper()\<close>.
\<close>

record world =
  clock :: rat
  upstream_log :: "string list"

record http_response =
  status_code :: int
  json :: "exn + pyval"

record upstream =
  yf_info :: "string \<Rightarrow> exn + pyval"
  http_get :: "string \<Rightarrow> exn + http_response"
  isoformat :: "rat \<Rightarrow> string"
  repr_other :: "pyval \<Rightarrow> string"
  str_upper :: "string \<Rightarrow> string"

definition py_str :: "upstream \<Rightarrow> pyval \<Rightarrow> string" where
  "py_str up v = (case v of PStr s \<Rightarrow> s | PInt i \<Rightarrow> show_int i | _ \<Rightarrow> repr_other up v)"

section \<open>yahoo\_finance/api.py: get\_ticker\_info\<close>

record yahoo_api =
  y_cache :: cache_manager
  y_rate :: rate_state

text \<open>
  Every method of a source client is one \<open>try\<close> block whose handler returns \<open>None\<close>
  (or \<open>[]\<close>). A method returns its value with the client and the world after the call.
  The value is in \<open>exn + pyval\<close> so that raising to the caller is expressible.
\<close>

definition relevant_info :: "upstream \<Rightarrow> string \<Rightarrow> (string \<times> pyval) list \<Rightarrow> rat \<Rightarrow> pyval" where
  "relevant_info up ticker info now =
     PDict
       [(''symbol'', PStr ticker),
        (''name'', dict_get info ''shortName'' (PStr [])),
        (''sector'', dict_get info ''sector'' (PStr [])),
        (''industry'', dict_get info ''industry'' (PStr [])),
        (''market_cap'', dict_get info ''marketCap'' (PInt 0)),
        (''pe_ratio'', dict_get info ''trailingPE'' (PInt 0)),
        (''dividend_yield'', dict_get info ''dividendYield'' (PInt 0)),
        (''beta'', dict_get info ''beta'' (PInt 0)),
        (''fifty_two_week_high'', dict_get info ''fiftyTwoWeekHigh'' (PInt 0)),
        (''fifty_two_week_low'', dict_get info ''fiftyTwoWeekLow'' (PInt 0)),
        (''avg_volume'', dict_get info ''averageVolume'' (PInt 0)),
        (''last_updated'', PStr (isoformat up now))]"

definition get_ticker_info ::
  "upstream \<Rightarrow> yahoo_api \<Rightarrow> world \<Rightarrow> pyval \<Rightarrow> (exn + pyval) \<times> yahoo_api \<times> world" where
  "get_ticker_info up y w ticker =
     (case validate_ticker (str_upper up) ticker of
        Inl e \<Rightarrow> (Inr PNone, y, w)
      | Inr t \<Rightarrow>
          let cache_key = ''ticker_info_'' @ t;
              cached_data = cache_get (y_cache y) (clock w) cache_key ''STOCK_PRICE''
          in if truthy cached_data then (Inr cached_data, y, w)
             else
               let (r, acq) = check_rate_limit (y_rate y) (clock w);
                   y1 = y\<lparr>y_rate := r\<rparr>;
                   w1 = w\<lparr>clock := finished acq,
                          upstream_log := upstream_log w @ [''yf.Ticker.info:'' @ t]\<rparr>
               in (case yf_info up t of
                     Inl e \<Rightarrow> (Inr PNone, y1, w1)
                   | Inr info \<Rightarrow>
                       (case info of
                          PDict kvs \<Rightarrow>
                            if kvs = [] then (Inr PNone, y1, w1)
                            else
                              let ri = relevant_info up t kvs (clock w1);
                                  (ok, c) = cache_set (y_cache y1) (clock w1) cache_key ri ''STOCK_PRICE''
                              in (Inr ri, y1\<lparr>y_cache := c\<rparr>, w1)
                        | _ \<Rightarrow> (Inr PNone, y1, w1))))"

section \<open>sec\_edgar/api.py: the rate limiter, CIK lookup and filings metadata\<close>

record edgar_api =
  e_cache :: cache_manager
  e_last_request_time :: rat

text \<open>\<open>_respect_rate_limit\<close>: the new \<open>last_request_time\<close> and the clock after the sleeps.\<close>

definition respect_rate_limit :: "rat \<Rightarrow> rat \<Rightarrow> rat \<times> rat" where
  "respect_rate_limit last_request now =
     (let elapsed = now - last_request;
          wait_time = max 0 (1 / SEC_EDGAR_API_LIMIT - elapsed);
          now1 = (if wait_time > 0 then now + wait_time else now);
          now2 = now1 + 1 / 10
      in (now2, now2))"

text \<open>
  The search of the ticker directory: the first company whose ticker, uppercased, is the
  one asked for gives the CIK, padded to ten digits.
\<close>

fun find_cik :: "upstream \<Rightarrow> string \<Rightarrow> (string \<times> pyval) list \<Rightarrow> exn + string option" where
  "find_cik up ticker [] = Inr None"
| "find_cik up ticker ((k, company) # rest) =
     (case company of
        PDict kvs \<Rightarrow>
          (case dict_get kvs ''ticker'' (PStr []) of
             PStr s \<Rightarrow>
               if str_upper up s = ticker
               then Inr (Some (zfill 10 (py_str up (dict_get kvs ''cik_str'' (PInt 0)))))
               else find_cik up ticker rest
           | _ \<Rightarrow> Inl AttributeError)
      | _ \<Rightarrow> Inl AttributeError)"

definition company_tickers_url :: string where
  "company_tickers_url = ''https://www.sec.gov/files/company_tickers.json''"

definition get_cik_from_ticker ::
  "upstream \<Rightarrow> edgar_api \<Rightarrow> world \<Rightarrow> pyval \<Rightarrow> (exn + pyval) \<times> edgar_api \<times> world" where
  "get_cik_from_ticker up a w ticker =
     (case validate_ticker (str_upper up) ticker of
        Inl e \<Rightarrow> (Inr PNone, a, w)
      | Inr t \<Rightarrow>
          let cache_key = ''cik_'' @ t;
              cached_data = cache_get (e_cache a) (clock w) cache_key ''SEC_FILING''
          in if truthy cached_data then (Inr cached_data, a, w)
             else
               let (l, now) = respect_rate_limit (e_last_request_time a) (clock w);
                   a1 = a\<lparr>e_last_request_time := l\<rparr>;
                   w1 = w\<lparr>clock := now, upstream_log := upstream_log w @ [company_tickers_url]\<rparr>
               in (case http_get up company_tickers_url of
                     Inl e \<Rightarrow> (Inr PNone, a1, w1)
                   | Inr response \<Rightarrow>
                       if status_code response \<noteq> 200 then (Inr PNone, a1, w1)
                       else
                         (case json response of
                            Inl e \<Rightarrow> (Inr PNone, a1, w1)
                          | Inr companies \<Rightarrow>
                              (case companies of
                                 PDict items \<Rightarrow>
                                   (case find_cik up t items of
                                      Inl e \<Rightarrow> (Inr PNone, a1, w1)
                                    | Inr None \<Rightarrow> (Inr PNone, a1, w1)
                                    | Inr (Some cik) \<Rightarrow>
                                        if cik \<noteq> []
                                        then
                                          let (ok, c) = cache_set (e_cache a1) (clock w1) cache_key
                                                          (PStr cik) ''SEC_FILING''
                                          in (Inr (PStr cik), a1\<lparr>e_cache := c\<rparr>, w1)
                                        else (Inr PNone, a1, w1))
                               | _ \<Rightarrow> (Inr PNone, a1, w1)))))"

text \<open>\<open>primary_documents[i] if i < len(primary_documents) else ''\<close>\<close>

definition primary_document :: "pyval \<Rightarrow> nat \<Rightarrow> exn + pyval" where
  "primary_document docs i =
     (case py_len docs of
        Inl e \<Rightarrow> Inl e
      | Inr n \<Rightarrow> if i < n then py_index docs i else Inr (PStr []))"

text \<open>
  The loop over \<open>range(min(len(forms), len(accession_numbers), len(filing_dates)))\<close>,
  leaving at the \<open>break\<close> once \<open>count\<close> filings are collected.
\<close>

fun filings_loop ::
  "pyval \<Rightarrow> pyval \<Rightarrow> pyval \<Rightarrow> pyval \<Rightarrow> string \<Rightarrow> int \<Rightarrow> pyval \<Rightarrow> pyval \<Rightarrow>
   nat list \<Rightarrow> pyval list \<Rightarrow> exn + pyval list" where
  "filings_loop forms accs dates docs form_type cnt ticker cik [] recent_filings =
     Inr recent_filings"
| "filings_loop forms accs dates docs form_type cnt ticker cik (i # rest) recent_filings =
     (case py_index forms i of
        Inl e \<Rightarrow> Inl e
      | Inr f \<Rightarrow>
          if f = PStr form_type
          then
            (case py_index accs i of
               Inl e \<Rightarrow> Inl e
             | Inr an \<Rightarrow>
                 (case py_index dates i of
                    Inl e \<Rightarrow> Inl e
                  | Inr fd \<Rightarrow>
                      (case primary_document docs i of
                         Inl e \<Rightarrow> Inl e
                       | Inr pd \<Rightarrow>
                           let filings = recent_filings @
                                 [PDict [(''form'', f), (''accessionNumber'', an),
                                         (''filingDate'', fd), (''primaryDocument'', pd),
                                         (''ticker'', ticker), (''cik'', cik)]]
                           in if int (length filings) \<ge> cnt then Inr filings
                              else filings_loop forms accs dates docs form_type cnt ticker cik
                                     rest filings)))
          else filings_loop forms accs dates docs form_type cnt ticker cik rest recent_filings)"

text \<open>
  The extraction from the submissions payload. \<open>Inr None\<close> is the early
  \<open>return []\<close> on an empty \<open>recent\<close>, which skips the caching; \<open>Inl\<close> is an exception,
  which the method's handler turns into \<open>[]\<close>.
\<close>

definition extract_recent_filings ::
  "pyval \<Rightarrow> string \<Rightarrow> int \<Rightarrow> pyval \<Rightarrow> pyval \<Rightarrow> exn + pyval list option" where
  "extract_recent_filings filings_data form_type cnt ticker cik =
     (case py_contains filings_data ''filings'' of
        Inl e \<Rightarrow> Inl e
      | Inr False \<Rightarrow> Inr (Some [])
      | Inr True \<Rightarrow>
          (case py_getitem filings_data ''filings'' of
             Inl e \<Rightarrow> Inl e
           | Inr fl \<Rightarrow>
               (case py_contains fl ''recent'' of
                  Inl e \<Rightarrow> Inl e
                | Inr False \<Rightarrow> Inr (Some [])
                | Inr True \<Rightarrow>
                    (case py_getitem fl ''recent'' of
                       Inl e \<Rightarrow> Inl e
                     | Inr recent \<Rightarrow>
                         if \<not> truthy recent then Inr None
                         else
                           (case recent of
                              PDict kvs \<Rightarrow>
                                let forms = dict_get kvs ''form'' (PList []);
                                    accs = dict_get kvs ''accessionNumber'' (PList []);
                                    dates = dict_get kvs ''filingDate'' (PList []);
                                    docs = dict_get kvs ''primaryDocument'' (PList [])
                                in (case py_len forms of
                                      Inl e \<Rightarrow> Inl e
                                    | Inr n1 \<Rightarrow>
                                        (case py_len accs of
                                           Inl e \<Rightarrow> Inl e
                                         | Inr n2 \<Rightarrow>
                                             (case py_len dates of
                                                Inl e \<Rightarrow> Inl e
                                              | Inr n3 \<Rightarrow>
                                                  (case filings_loop forms accs dates docs form_type
                                                          cnt ticker cik [0..<min n1 (min n2 n3)] [] of
                                                     Inl e \<Rightarrow> Inl e
                                                   | Inr filings \<Rightarrow> Inr (Some filings)))))
                            | _ \<Rightarrow> Inl AttributeError)))))"

definition submissions_url :: "upstream \<Rightarrow> pyval \<Rightarrow> string" where
  "submissions_url up cik = ''https://data.sec.gov/submissions/CIK'' @ py_str up cik @ ''.json''"

definition get_filings_metadata ::
  "upstream \<Rightarrow> edgar_api \<Rightarrow> world \<Rightarrow> pyval \<Rightarrow> string \<Rightarrow> int \<Rightarrow>
   (exn + pyval) \<times> edgar_api \<times> world" where
  "get_filings_metadata up a w ticker form_type cnt =
     (case get_cik_from_ticker up a w ticker of
        (Inl e, a0, w0) \<Rightarrow> (Inr (PList []), a0, w0)
      | (Inr cik, a0, w0) \<Rightarrow>
          if \<not> truthy cik then (Inr PNone, a0, w0)
          else
            let cache_key = ''filings_'' @ py_str up ticker @ ''_'' @ form_type @ ''_'' @ show_int cnt;
                cached_data = cache_get (e_cache a0) (clock w0) cache_key ''SEC_FILING''
            in if truthy cached_data then (Inr cached_data, a0, w0)
               else
                 let (l, now) = respect_rate_limit (e_last_request_time a0) (clock w0);
                     a1 = a0\<lparr>e_last_request_time := l\<rparr>;
                     url = submissions_url up cik;
                     w1 = w0\<lparr>clock := now, upstream_log := upstream_log w0 @ [url]\<rparr>
                 in (case http_get up url of
                       Inl e \<Rightarrow> (Inr (PList []), a1, w1)
                     | Inr response \<Rightarrow>
                         if status_code response = 404 then (Inr (PList []), a1, w1)
                         else if status_code response \<noteq> 200 then (Inr (PList []), a1, w1)
                         else
                           (case json response of
                              Inl e \<Rightarrow> (Inr (PList []), a1, w1)
                            | Inr filings_data \<Rightarrow>
                                (case extract_recent_filings filings_data form_type cnt ticker cik of
                                   Inl e \<Rightarrow> (Inr (PList []), a1, w1)
                                 | Inr None \<Rightarrow> (Inr (PList []), a1, w1)
                                 | Inr (Some recent_filings) \<Rightarrow>
                                     let (ok, c) = cache_set (e_cache a1) (clock w1) cache_key
                                                     (PList recent_filings) ''SEC_FILING''
                                     in (Inr (PList recent_filings), a1\<lparr>e_cache := c\<rparr>, w1)))))"

section \<open>\_\_init\_\_.py: the aggregator\<close>

text \<open>
  \<open>get_stock_data\<close> calls the two source clients and the database in a fixed order inside
  one \<open>try\<close> block. What each call does (return a value or raise) is a parameter, so that
  the method is described for every behaviour of its collaborators. The ticker they
  receive is the value of \<open>ticker.upper()\<close>. A historical-data result is \<open>None\<close> or a
  frame, given by the value of its \<open>to_dict()\<close>. \<open>str.upper()\<close> is a parameter too.
\<close>

datatype frame_result = NoFrame | Frame pyval

record collaborators =
  c_get_ticker_info :: "pyval \<Rightarrow> exn + pyval"
  c_get_historical_data :: "pyval \<Rightarrow> exn + frame_result"
  c_get_options_chain :: "pyval \<Rightarrow> exn + pyval"
  c_save_options_data :: "pyval \<Rightarrow> pyval \<Rightarrow> exn + bool"
  c_calculate_implied_volatility :: "pyval \<Rightarrow> exn + pyval"
  c_get_recent_10k :: "pyval \<Rightarrow> exn + pyval"
  c_get_recent_8k :: "pyval \<Rightarrow> exn + pyval"
  c_save_sec_filing :: "pyval \<Rightarrow> exn + bool"
  c_extract_key_financials :: "pyval \<Rightarrow> exn + pyval"
  c_str_upper :: "string \<Rightarrow> string"

text \<open>
  The composite record \<open>comprehensive_data\<close>. The keys \<open>historical_data\<close> and
  \<open>options_data\<close> exist only once they are assigned (\<open>None\<close>: key absent).
\<close>

record composite =
  basic_info :: pyval
  implied_volatility :: pyval
  historical_data :: "pyval option"
  options_data :: "pyval option"
  recent_10k :: pyval
  recent_8k :: pyval
  key_financials :: pyval
  last_updated :: string

definition default_composite :: "string \<Rightarrow> composite" where
  "default_composite stamp =
     \<lparr>basic_info = PDict [], implied_volatility = PNone,
      historical_data = None, options_data = None,
      recent_10k = PNone, recent_8k = PList [], key_financials = PNone,
      last_updated = stamp\<rparr>"

text \<open>
  A step of the \<open>try\<close> block maps the record to the record after the step, with the
  exception that ended the step, if any. The steps run until one raises.
\<close>

type_synonym step = "composite \<Rightarrow> composite \<times> exn option"

fun run_steps :: "step list \<Rightarrow> composite \<Rightarrow> composite \<times> exn option" where
  "run_steps [] cd = (cd, None)"
| "run_steps (f # fs) cd =
     (case f cd of
        (cd', Some e) \<Rightarrow> (cd', Some e)
      | (cd', None) \<Rightarrow> run_steps fs cd')"

definition step_ticker_info :: "collaborators \<Rightarrow> pyval \<Rightarrow> step" where
  "step_ticker_info co ticker cd =
     (case c_get_ticker_info co ticker of
        Inl e \<Rightarrow> (cd, Some e)
      | Inr stock_info \<Rightarrow> (if truthy stock_info then cd\<lparr>basic_info := stock_info\<rparr> else cd, None))"

definition step_historical :: "collaborators \<Rightarrow> pyval \<Rightarrow> step" where
  "step_historical co ticker cd =
     (case c_get_historical_data co ticker of
        Inl e \<Rightarrow> (cd, Some e)
      | Inr NoFrame \<Rightarrow> (cd, None)
      | Inr (Frame d) \<Rightarrow> (cd\<lparr>historical_data := Some d\<rparr>, None))"

definition step_options :: "collaborators \<Rightarrow> pyval \<Rightarrow> step" where
  "step_options co ticker cd =
     (case c_get_options_chain co ticker of
        Inl e \<Rightarrow> (cd, Some e)
      | Inr od \<Rightarrow>
          if truthy od
          then (case c_save_options_data co ticker od of
                  Inl e \<Rightarrow> (cd\<lparr>options_data := Some od\<rparr>, Some e)
                | Inr ok \<Rightarrow> (cd\<lparr>options_data := Some od\<rparr>, None))
          else (cd, None))"

definition step_implied_volatility :: "collaborators \<Rightarrow> pyval \<Rightarrow> step" where
  "step_implied_volatility co ticker cd =
     (case c_calculate_implied_volatility co ticker of
        Inl e \<Rightarrow> (cd, Some e)
      | Inr iv \<Rightarrow> (if truthy iv then cd\<lparr>implied_volatility := iv\<rparr> else cd, None))"

definition step_recent_10k :: "collaborators \<Rightarrow> pyval \<Rightarrow> step" where
  "step_recent_10k co ticker cd =
     (case c_get_recent_10k co ticker of
        Inl e \<Rightarrow> (cd, Some e)
      | Inr filing \<Rightarrow>
          if truthy filing
          then (case c_save_sec_filing co filing of
                  Inl e \<Rightarrow> (cd\<lparr>recent_10k := filing\<rparr>, Some e)
                | Inr ok \<Rightarrow> (cd\<lparr>recent_10k := filing\<rparr>, None))
          else (cd, None))"

text \<open>\<open>for filing in sec_filings_8k: if filing: self.db.save_sec_filing(filing)\<close>\<close>

fun save_filings :: "collaborators \<Rightarrow> pyval list \<Rightarrow> exn option" where
  "save_filings co [] = None"
| "save_filings co (filing # rest) =
     (if truthy filing
      then (case c_save_sec_filing co filing of
              Inl e \<Rightarrow> Some e
            | Inr ok \<Rightarrow> save_filings co rest)
      else save_filings co rest)"

definition step_recent_8k :: "collaborators \<Rightarrow> pyval \<Rightarrow> step" where
  "step_recent_8k co ticker cd =
     (case c_get_recent_8k co ticker of
        Inl e \<Rightarrow> (cd, Some e)
      | Inr filings \<Rightarrow>
          if truthy filings
          then (case py_iter filings of
                  Inl e \<Rightarrow> (cd\<lparr>recent_8k := filings\<rparr>, Some e)
                | Inr xs \<Rightarrow> (cd\<lparr>recent_8k := filings\<rparr>, save_filings co xs))
          else (cd, None))"

definition step_key_financials :: "collaborators \<Rightarrow> pyval \<Rightarrow> step" where
  "step_key_financials co ticker cd =
     (case c_extract_key_financials co ticker of
        Inl e \<Rightarrow> (cd, Some e)
      | Inr fd \<Rightarrow> (if truthy fd then cd\<lparr>key_financials := fd\<rparr> else cd, None))"

text \<open>
  \<open>get_stock_data\<close>: \<open>ticker.upper()\<close> comes before the \<open>try\<close>, so its exception leaves
  the method. Both exits of the \<open>try\<close> block return the record as it then is; the last
  call, \<open>save_stock_data\<close>, assigns none of the record's fields, whether it returns or
  raises.
\<close>

definition get_stock_data :: "collaborators \<Rightarrow> string \<Rightarrow> pyval \<Rightarrow> exn + composite" where
  "get_stock_data co stamp ticker =
     (case py_upper (c_str_upper co) ticker of
        Inl e \<Rightarrow> Inl e
      | Inr t \<Rightarrow>
          Inr (fst (run_steps
                 [step_ticker_info co t, step_historical co t, step_options co t,
                  step_implied_volatility co t, step_recent_10k co t, step_recent_8k co t,
                  step_key_financials co t]
                 (default_composite stamp))))"

text \<open>\<open>clear_cache\<close>: the result of \<open>self.cache.clear(pattern)\<close> is dropped.\<close>

definition clear_cache :: "cache_manager \<Rightarrow> string option \<Rightarrow> bool \<times> cache_manager" where
  "clear_cache c pattern = (let (r, c') = cache_clear c pattern in (True, c'))"

section \<open>Auxiliary notions and example data\<close>

text \<open>
  A cache entry; a store with three keys, two of which contain \<open>AAPL\<close>; and a store
  whose one key does not.
\<close>

definition ex_entry :: cache_entry where
  "ex_entry = \<lparr>timestamp = 0, cvalue = PStr ''0000320193''\<rparr>"

definition ex_store :: store where
  "ex_store = [(''cik_AAPL'', ex_entry), (''facts_AAPL'', ex_entry), (''cik_MSFT'', ex_entry)]"

definition ex_store_other :: store where
  "ex_store_other = [(''cik_MSFT'', ex_entry)]"

text \<open>
  The seconds of backoff that each acquire of a run slept; and a limiter whose counter is
  above the threshold, early in its window.
\<close>

definition slept :: "acquire list \<Rightarrow> nat list" where
  "slept run = map (\<lambda>a. seconds (backoff_sleep a)) run"

definition ex_rate :: rate_state where
  "ex_rate = \<lparr>request_count = 8, reset_time = 3600, last_request_time = 0\<rparr>"

text \<open>
  A call returned (it did not raise); and the field that a returned value is merged
  into: the value when it is truthy, and the field's default otherwise and when the call
  raised.
\<close>

definition returned :: "exn + 'a \<Rightarrow> bool" where
  "returned r = (case r of Inl e \<Rightarrow> False | Inr v \<Rightarrow> True)"

definition merged :: "exn + pyval \<Rightarrow> pyval \<Rightarrow> pyval" where
  "merged r dflt = (case r of Inl e \<Rightarrow> dflt | Inr v \<Rightarrow> if truthy v then v else dflt)"

text \<open>The same for the two keys that exist only once they are assigned.\<close>

definition merged_key :: "exn + pyval \<Rightarrow> pyval option \<Rightarrow> pyval option" where
  "merged_key r dflt = (case r of Inl e \<Rightarrow> dflt | Inr v \<Rightarrow> if truthy v then Some v else dflt)"

definition merged_frame :: "exn + frame_result \<Rightarrow> pyval option \<Rightarrow> pyval option" where
  "merged_frame r dflt = (case r of Inr (Frame d) \<Rightarrow> Some d | _ \<Rightarrow> dflt)"

text \<open>
  A step of \<open>get_stock_data\<close> ran to its end without an exception. The options step and
  the two filings steps also call the database, for a truthy result only.
\<close>

definition ran_ticker_info :: "collaborators \<Rightarrow> pyval \<Rightarrow> bool" where
  "ran_ticker_info co t = returned (c_get_ticker_info co t)"

definition ran_historical :: "collaborators \<Rightarrow> pyval \<Rightarrow> bool" where
  "ran_historical co t = returned (c_get_historical_data co t)"

definition ran_options :: "collaborators \<Rightarrow> pyval \<Rightarrow> bool" where
  "ran_options co t =
     (case c_get_options_chain co t of
        Inl e \<Rightarrow> False
      | Inr od \<Rightarrow> if truthy od then returned (c_save_options_data co t od) else True)"

definition ran_implied_volatility :: "collaborators \<Rightarrow> pyval \<Rightarrow> bool" where
  "ran_implied_volatility co t = returned (c_calculate_implied_volatility co t)"

definition ran_recent_10k :: "collaborators \<Rightarrow> pyval \<Rightarrow> bool" where
  "ran_recent_10k co t =
     (case c_get_recent_10k co t of
        Inl e \<Rightarrow> False
      | Inr filing \<Rightarrow> if truthy filing then returned (c_save_sec_filing co filing) else True)"

definition ran_recent_8k :: "collaborators \<Rightarrow> pyval \<Rightarrow> bool" where
  "ran_recent_8k co t =
     (case c_get_recent_8k co t of
        Inl e \<Rightarrow> False
      | Inr filings \<Rightarrow>
          if truthy filings
          then (case py_iter filings of Inl e \<Rightarrow> False | Inr xs \<Rightarrow> save_filings co xs = None)
          else True)"

text \<open>A step is reached when every step before it ran to its end.\<close>

definition reached_historical :: "collaborators \<Rightarrow> pyval \<Rightarrow> bool" where
  "reached_historical co t = ran_ticker_info co t"

definition reached_options :: "collaborators \<Rightarrow> pyval \<Rightarrow> bool" where
  "reached_options co t = (reached_historical co t \<and> ran_historical co t)"

definition reached_implied_volatility :: "collaborators \<Rightarrow> pyval \<Rightarrow> bool" where
  "reached_implied_volatility co t = (reached_options co t \<and> ran_options co t)"

definition reached_recent_10k :: "collaborators \<Rightarrow> pyval \<Rightarrow> bool" where
  "reached_recent_10k co t = (reached_implied_volatility co t \<and> ran_implied_volatility co t)"

definition reached_recent_8k :: "collaborators \<Rightarrow> pyval \<Rightarrow> bool" where
  "reached_recent_8k co t = (reached_recent_10k co t \<and> ran_recent_10k co t)"

definition reached_key_financials :: "collaborators \<Rightarrow> pyval \<Rightarrow> bool" where
  "reached_key_financials co t = (reached_recent_8k co t \<and> ran_recent_8k co t)"

text \<open>
  The best-effort record for the uppercased ticker \<open>t\<close>: a field holds the value that its
  call returned (merged when present) if its step was reached, and its default if an
  earlier step raised.
\<close>

definition best_effort :: "collaborators \<Rightarrow> string \<Rightarrow> pyval \<Rightarrow> composite" where
  "best_effort co stamp t =
     \<lparr>basic_info = merged (c_get_ticker_info co t) (PDict []),
      implied_volatility =
        (if reached_implied_volatility co t
         then merged (c_calculate_implied_volatility co t) PNone else PNone),
      historical_data =
        (if reached_historical co t then merged_frame (c_get_historical_data co t) None else None),
      options_data =
        (if reached_options co t then merged_key (c_get_options_chain co t) None else None),
      recent_10k =
        (if reached_recent_10k co t then merged (c_get_recent_10k co t) PNone else PNone),
      recent_8k =
        (if reached_recent_8k co t then merged (c_get_recent_8k co t) (PList []) else PList []),
      key_financials =
        (if reached_key_financials co t
         then merged (c_extract_key_financials co t) PNone else PNone),
      last_updated = stamp\<rparr>"

text \<open>
  Collaborators whose market-data calls return and whose filings calls raise; the same
  with a 10-K filing found before the 8-K call raises; and collaborators that return
  their empty results, as the source clients do for a ticker that is not a string.
\<close>

definition ex_info :: pyval where
  "ex_info = PDict [(''symbol'', PStr ''AAPL''), (''name'', PStr ''Apple Inc.'')]"

definition ex_filing :: pyval where
  "ex_filing = PDict [(''form'', PStr ''10-K''), (''accessionNumber'', PStr ''0000320193-23-000106'')]"

definition ex_collaborators :: collaborators where
  "ex_collaborators =
     \<lparr>c_get_ticker_info = (\<lambda>t. Inr ex_info),
      c_get_historical_data = (\<lambda>t. Inr NoFrame),
      c_get_options_chain = (\<lambda>t. Inr PNone),
      c_save_options_data = (\<lambda>t od. Inr False),
      c_calculate_implied_volatility = (\<lambda>t. Inr PNone),
      c_get_recent_10k = (\<lambda>t. Inl UpstreamError),
      c_get_recent_8k = (\<lambda>t. Inl UpstreamError),
      c_save_sec_filing = (\<lambda>f. Inr False),
      c_extract_key_financials = (\<lambda>t. Inl UpstreamError),
      c_str_upper = upper\<rparr>"

definition ex_collaborators_8k :: collaborators where
  "ex_collaborators_8k =
     ex_collaborators\<lparr>c_get_recent_10k := (\<lambda>t. Inr ex_filing)\<rparr>"

definition degrading_collaborators :: collaborators where
  "degrading_collaborators =
     \<lparr>c_get_ticker_info = (\<lambda>t. Inr PNone),
      c_get_historical_data = (\<lambda>t. Inr NoFrame),
      c_get_options_chain = (\<lambda>t. Inr PNone),
      c_save_options_data = (\<lambda>t od. Inr False),
      c_calculate_implied_volatility = (\<lambda>t. Inr PNone),
      c_get_recent_10k = (\<lambda>t. Inr PNone),
      c_get_recent_8k = (\<lambda>t. Inr (PList [])),
      c_save_sec_filing = (\<lambda>f. Inr False),
      c_extract_key_financials = (\<lambda>t. Inr PNone),
      c_str_upper = upper\<rparr>"

text \<open>The filter of the extraction, and the positive implied volatility of a contract.\<close>

definition is_10k :: "fact_entry \<Rightarrow> bool" where
  "is_10k entry \<longleftrightarrow> e_form entry = Some ''10-K''"

definition positive_iv :: "option_contract \<Rightarrow> rat option" where
  "positive_iv c =
     (case impliedVolatility c of None \<Rightarrow> None | Some v \<Rightarrow> if v > 0 then Some v else None)"

text \<open>
  A taxonomy that has two of the revenue tags: one annual entry under \<open>Revenues\<close>, one
  annual and one quarterly entry under \<open>SalesRevenueNet\<close>.
\<close>

definition ex_us_gaap :: taxonomy where
  "ex_us_gaap =
     [(''Revenues'',
        \<lparr>units = Some [(''USD'',
           [\<lparr>e_form = Some ''10-K'', e_val = Some 100, e_end = Some ''2020-12-31'',
             e_filed = Some ''2021-02-01''\<rparr>])]\<rparr>),
      (''SalesRevenueNet'',
        \<lparr>units = Some [(''USD'',
           [\<lparr>e_form = Some ''10-K'', e_val = Some 90, e_end = Some ''2019-12-31'',
             e_filed = Some ''2020-02-01''\<rparr>,
            \<lparr>e_form = Some ''10-Q'', e_val = Some 20, e_end = Some ''2020-03-31'',
             e_filed = Some ''2020-05-01''\<rparr>])]\<rparr>)]"

definition ex_facts :: company_facts where
  "ex_facts = \<lparr>facts = Some [(''us-gaap'', ex_us_gaap)]\<rparr>"

text \<open>
  Chains with calls at 0.2 and 0.3 and a put at 0.1; with the same calls and no puts;
  and with no positive value on either side.
\<close>

definition contract_iv :: "rat \<Rightarrow> option_contract" where
  "contract_iv v = \<lparr>contractSymbol = ''AAPL'', impliedVolatility = Some v\<rparr>"

definition ex_chain_both :: chain where
  "ex_chain_both = \<lparr>calls = Some [contract_iv (2/10), contract_iv (3/10)], puts = Some [contract_iv (1/10)]\<rparr>"

definition ex_chain_calls :: chain where
  "ex_chain_calls = \<lparr>calls = Some [contract_iv (2/10), contract_iv (3/10)], puts = Some []\<rparr>"

definition ex_chain_none :: chain where
  "ex_chain_none = \<lparr>calls = Some [contract_iv 0], puts = None\<rparr>"

text \<open>
  An upstream for the examples: the ticker directory knows AAPL, and its submissions
  hold one 10-K filing and no 8-K filing. The cache of the clients already holds an
  entry, for another ticker.
\<close>

definition ex_companies :: pyval where
  "ex_companies =
     PDict [(''0'', PDict [(''cik_str'', PInt 320193), (''ticker'', PStr ''AAPL''),
                           (''title'', PStr ''Apple Inc.'')])]"

definition ex_submissions :: pyval where
  "ex_submissions =
     PDict [(''filings'', PDict [(''recent'', PDict
        [(''form'', PList [PStr ''10-K'']),
         (''accessionNumber'', PList [PStr ''0000320193-23-000106'']),
         (''filingDate'', PList [PStr ''2023-11-03'']),
         (''primaryDocument'', PList [PStr ''aapl-20230930.htm''])])])]"

definition ex_http_get :: "string \<Rightarrow> exn + http_response" where
  "ex_http_get url =
     (if url = company_tickers_url then Inr \<lparr>status_code = 200, json = Inr ex_companies\<rparr>
      else Inr \<lparr>status_code = 200, json = Inr ex_submissions\<rparr>)"

definition ex_yf_info :: "string \<Rightarrow> exn + pyval" where
  "ex_yf_info t = Inr (PDict [(''shortName'', PStr ''Apple Inc.'')])"

definition ex_isoformat :: "rat \<Rightarrow> string" where
  "ex_isoformat t = ''2024-01-01T00:00:00''"

definition ex_repr :: "pyval \<Rightarrow> string" where
  "ex_repr v = ''?''"

definition ex_upstream :: upstream where
  "ex_upstream = \<lparr>yf_info = ex_yf_info, http_get = ex_http_get,
                   isoformat = ex_isoformat, repr_other = ex_repr, str_upper = upper\<rparr>"

definition ex_seed :: store where
  "ex_seed =
     [(''ticker_info_MSFT'', \<lparr>timestamp = 900, cvalue = PDict [(''symbol'', PStr ''MSFT'')]\<rparr>)]"

definition ex_edgar :: edgar_api where
  "ex_edgar = \<lparr>e_cache = Some ex_seed, e_last_request_time = 0\<rparr>"

definition ex_yahoo :: yahoo_api where
  "ex_yahoo = \<lparr>y_cache = Some ex_seed,
               y_rate = \<lparr>request_count = 0, reset_time = 4600, last_request_time = 0\<rparr>\<rparr>"

definition ex_world :: world where
  "ex_world = \<lparr>clock = 1000, upstream_log = []\<rparr>"

text \<open>
  Two calls of \<open>get_filings_metadata('AAPL', '8-K', 5)\<close>, the second one 60 seconds after
  the first returned, on the client and the world that the first call left.
\<close>

definition later :: "rat \<Rightarrow> world \<Rightarrow> world" where
  "later d w = w\<lparr>clock := clock w + d\<rparr>"

definition ex_first_call :: "(exn + pyval) \<times> edgar_api \<times> world" where
  "ex_first_call = get_filings_metadata ex_upstream ex_edgar ex_world (PStr ''AAPL'') ''8-K'' 5"

definition ex_second_call :: "(exn + pyval) \<times> edgar_api \<times> world" where
  "ex_second_call =
     (case ex_first_call of
        (r, a, w) \<Rightarrow> get_filings_metadata ex_upstream a (later 60 w) (PStr ''AAPL'') ''8-K'' 5)"

text \<open>
  The store after the first call and after the second call, and the URL of the
  submissions of AAPL.
\<close>

definition ex_store1 :: store where
  "ex_store1 =
     [(''ticker_info_MSFT'', \<lparr>timestamp = 900, cvalue = PDict [(''symbol'', PStr ''MSFT'')]\<rparr>),
      (''cik_AAPL'', \<lparr>timestamp = 10001 / 10, cvalue = PStr ''0000320193''\<rparr>),
      (''filings_AAPL_8-K_5'', \<lparr>timestamp = 5002 / 5, cvalue = PList []\<rparr>)]"

definition ex_store2 :: store where
  "ex_store2 =
     [(''ticker_info_MSFT'', \<lparr>timestamp = 900, cvalue = PDict [(''symbol'', PStr ''MSFT'')]\<rparr>),
      (''cik_AAPL'', \<lparr>timestamp = 10001 / 10, cvalue = PStr ''0000320193''\<rparr>),
      (''filings_AAPL_8-K_5'', \<lparr>timestamp = 2121 / 2, cvalue = PList []\<rparr>)]"

definition ex_submissions_url :: string where
  "ex_submissions_url = ''https://data.sec.gov/submissions/CIK0000320193.json''"

section \<open>Properties of the validator\<close>

lemma validate_ticker_simps [simp]:
  "validate_ticker u (PStr s) =
     (if s = [] then Inl (ValueError ''Ticker must be a non-empty string'') else Inr (u s))"
  "validate_ticker u PNone = Inl (ValueError ''Ticker must be a non-empty string'')"
  "validate_ticker u (PBool b) = Inl (ValueError ''Ticker must be a non-empty string'')"
  "validate_ticker u (PInt i) = Inl (ValueError ''Ticker must be a non-empty string'')"
  "validate_ticker u (PNum q) = Inl (ValueError ''Ticker must be a non-empty string'')"
  "validate_ticker u (PBytes bs) = Inl (ValueError ''Ticker must be a non-empty string'')"
  "validate_ticker u (PByteArray bs) = Inl (ValueError ''Ticker must be a non-empty string'')"
  "validate_ticker u (PList xs) = Inl (ValueError ''Ticker must be a non-empty string'')"
  "validate_ticker u (PDict kvs) = Inl (ValueError ''Ticker must be a non-empty string'')"
  by (simp_all add: validate_ticker_def)

section \<open>Properties of the rate limiter\<close>

lemma window_reset_before: "now < reset_time st \<Longrightarrow> window_reset st now = st"
  by (simp add: window_reset_def)

lemma backoff_amount_mono:
  assumes "m \<le> n"
  shows "min 30 ((2::nat) ^ (m div 5)) \<le> min 30 (2 ^ (n div 5))"
proof -
  from assms have "m div 5 \<le> n div 5" by (rule div_le_mono)
  then have "(2::nat) ^ (m div 5) \<le> 2 ^ (n div 5)" by (simp add: power_increasing)
  then show ?thesis by (simp add: min_le_iff_disj)
qed

lemma sorted_backoff: "sorted (map (\<lambda>i. min 30 ((2::nat) ^ ((rc + i) div 5))) [0..<n])"
proof (induction n)
  case 0
  show ?case by simp
next
  case (Suc n)
  have "\<And>x. x < n \<Longrightarrow> min 30 ((2::nat) ^ ((rc + x) div 5)) \<le> min 30 (2 ^ ((rc + n) div 5))"
    by (rule backoff_amount_mono) simp
  with Suc show ?case by (simp add: sorted_append)
qed

text \<open>One acquire inside the window, with the counter above 5.\<close>

lemma check_rate_limit_backoff:
  assumes "5 < request_count st" and "now < reset_time st"
  shows "check_rate_limit st now =
     (st\<lparr>request_count := request_count st + 1,
         last_request_time := now + max 0 (1 - (now - last_request_time st))
                                + of_nat (min 30 (2 ^ (request_count st div 5)))\<rparr>,
      \<lparr>started = now,
       spacing_sleep = (if now - last_request_time st < 1
                        then Some (1 - (now - last_request_time st)) else None),
       backoff_sleep = Some (min 30 (2 ^ (request_count st div 5))),
       finished = now + max 0 (1 - (now - last_request_time st))
                    + of_nat (min 30 (2 ^ (request_count st div 5)))\<rparr>)"
  using assms by (simp add: check_rate_limit_def window_reset_before Let_def max_def)

lemma acquire_run_length: "length (fst (acquire_run st now gaps)) = length gaps"
proof (induction gaps arbitrary: st now)
  case Nil
  show ?case by simp
next
  case (Cons gap gaps)
  obtain st' a where step: "check_rate_limit st (now + gap) = (st', a)"
    by (cases "check_rate_limit st (now + gap)")
  obtain rest final where run: "acquire_run st' (finished a) gaps = (rest, final)"
    by (cases "acquire_run st' (finished a) gaps")
  have "length rest = length gaps" using Cons.IH[of st' "finished a"] by (simp add: run)
  then show ?case using step run by simp
qed

lemma acquire_run_backoff:
  "5 < request_count st \<Longrightarrow>
   \<forall>a \<in> set (fst (acquire_run st now gaps)). started a < reset_time st \<Longrightarrow>
   map backoff_sleep (fst (acquire_run st now gaps)) =
     map (\<lambda>i. Some (min 30 (2 ^ ((request_count st + i) div 5)))) [0..<length gaps]
   \<and> (\<forall>a \<in> set (fst (acquire_run st now gaps)).
         finished a = started a + seconds (spacing_sleep a) + of_nat (seconds (backoff_sleep a)))
   \<and> request_count (snd (acquire_run st now gaps)) = request_count st + length gaps
   \<and> reset_time (snd (acquire_run st now gaps)) = reset_time st
   \<and> (gaps \<noteq> [] \<longrightarrow> last_request_time (snd (acquire_run st now gaps)) =
         finished (last (fst (acquire_run st now gaps))))"
proof (induction gaps arbitrary: st now)
  case Nil
  then show ?case by simp
next
  case (Cons gap gaps)
  let ?t = "now + gap"
  obtain st' a where step: "check_rate_limit st ?t = (st', a)"
    by (cases "check_rate_limit st ?t")
  obtain rest final where run: "acquire_run st' (finished a) gaps = (rest, final)"
    by (cases "acquire_run st' (finished a) gaps")
  have whole: "acquire_run st now (gap # gaps) = (a # rest, final)"
    using step run by simp
  have sa: "started a = ?t" using step by (auto simp: check_rate_limit_def Let_def)
  from Cons.prems(2)[unfolded whole] have t: "?t < reset_time st" by (simp add: sa)
  note one = check_rate_limit_backoff[OF Cons.prems(1) t]
  from one step have rc: "request_count st' = request_count st + 1"
    and rt: "reset_time st' = reset_time st"
    and lr: "last_request_time st' = finished a"
    and bo: "backoff_sleep a = Some (min 30 (2 ^ (request_count st div 5)))"
    and fin: "finished a = started a + seconds (spacing_sleep a) + of_nat (seconds (backoff_sleep a))"
    by (auto simp: seconds_def max_def)
  from Cons.prems(2)[unfolded whole] rt
  have tail: "\<forall>a \<in> set (fst (acquire_run st' (finished a) gaps)). started a < reset_time st'"
    unfolding run by simp
  from Cons.prems(1) rc have "5 < request_count st'" by simp
  note IH = Cons.IH[OF this tail, unfolded run fst_conv snd_conv]
  have upt: "[0..<Suc (length gaps)] = 0 # map Suc [0..<length gaps]"
    by (simp add: upt_conv_Cons map_Suc_upt del: upt_Suc)
  have c1: "map backoff_sleep (a # rest) =
     map (\<lambda>i. Some (min 30 (2 ^ ((request_count st + i) div 5)))) [0..<length (gap # gaps)]"
    using IH bo rc by (simp add: upt comp_def del: upt_Suc)
  have c2: "\<forall>a \<in> set (a # rest).
         finished a = started a + seconds (spacing_sleep a) + of_nat (seconds (backoff_sleep a))"
    using IH fin by simp
  have c3: "request_count final = request_count st + length (gap # gaps)"
    using IH rc by simp
  have c4: "reset_time final = reset_time st"
    using IH rt by simp
  have c5: "last_request_time final = finished (last (a # rest))"
  proof (cases gaps)
    case Nil
    with run have "rest = []" "final = st'" by simp_all
    with lr show ?thesis by simp
  next
    case (Cons g gs)
    have "length rest = length gaps"
      using acquire_run_length[of st' "finished a" gaps] by (simp add: run)
    with Cons have "rest \<noteq> []" by auto
    moreover from IH Cons have "last_request_time final = finished (last rest)" by simp
    ultimately show ?thesis by simp
  qed
  from c1 c2 c3 c4 c5 show ?case unfolding whole fst_conv snd_conv by blast
qed

text \<open>
  Claim C7. The exponent of the claim's \<open>2^(requestCount / 5)\<close> is read as the floor
  division \<open>request_count // 5\<close> that the code computes. Windowed-counter rate limiter:
  with \<open>request_count\<close> above 5, an acquire that starts before the window's \<open>reset_time\<close>
  sleeps the backoff \<open>min(30, 2 ** (request_count // 5))\<close> seconds: its clock at the end
  is its clock at the start plus the spacing sleep plus that backoff, and the limiter's
  \<open>last_request_time\<close> is stamped with it. For consecutive acquires that all start
  before \<open>reset_time\<close>, the counter goes up by one at each acquire, the backoff sleeps
  are those of \<open>request_count\<close>, \<open>request_count + 1\<close>, ...; they are non-decreasing and
  none exceeds 30. An acquire at or after \<open>reset_time\<close> resets the counter and sleeps no
  backoff.
\<close>

theorem rate_limit_backoff_run:
  assumes "5 < request_count st"
    and "\<forall>a \<in> set (fst (acquire_run st now gaps)). started a < reset_time st"
  shows "map backoff_sleep (fst (acquire_run st now gaps)) =
           map (\<lambda>i. Some (min 30 (2 ^ ((request_count st + i) div 5)))) [0..<length gaps]
         \<and> (\<forall>a \<in> set (fst (acquire_run st now gaps)).
               finished a = started a + seconds (spacing_sleep a) + of_nat (seconds (backoff_sleep a)))
         \<and> sorted (slept (fst (acquire_run st now gaps)))
         \<and> (\<forall>d \<in> set (slept (fst (acquire_run st now gaps))). d \<le> 30)
         \<and> request_count (snd (acquire_run st now gaps)) = request_count st + length gaps
         \<and> (gaps \<noteq> [] \<longrightarrow> last_request_time (snd (acquire_run st now gaps)) =
               finished (last (fst (acquire_run st now gaps))))
         \<and> (\<forall>t. t < reset_time st \<longrightarrow>
               backoff_sleep (snd (check_rate_limit st t)) =
                 Some (min 30 (2 ^ (request_count st div 5)))
               \<and> finished (snd (check_rate_limit st t)) =
                   t + max 0 (1 - (t - last_request_time st))
                     + of_nat (min 30 (2 ^ (request_count st div 5)))
               \<and> last_request_time (fst (check_rate_limit st t)) =
                   finished (snd (check_rate_limit st t)))
         \<and> (\<forall>t. reset_time st \<le> t \<longrightarrow>
               backoff_sleep (snd (check_rate_limit st t)) = None
               \<and> request_count (fst (check_rate_limit st t)) = 1)"
proof -
  let ?f = "\<lambda>i. min 30 ((2::nat) ^ ((request_count st + i) div 5))"
  note run = acquire_run_backoff[OF assms]
  then have b: "map backoff_sleep (fst (acquire_run st now gaps)) = map (\<lambda>i. Some (?f i)) [0..<length gaps]"
    by blast
  have "slept (fst (acquire_run st now gaps)) =
        map seconds (map backoff_sleep (fst (acquire_run st now gaps)))"
    by (simp add: slept_def comp_def)
  then have sl: "slept (fst (acquire_run st now gaps)) = map ?f [0..<length gaps]"
    by (simp add: b comp_def seconds_def)
  have one: "\<forall>t. t < reset_time st \<longrightarrow>
               backoff_sleep (snd (check_rate_limit st t)) =
                 Some (min 30 (2 ^ (request_count st div 5)))
               \<and> finished (snd (check_rate_limit st t)) =
                   t + max 0 (1 - (t - last_request_time st))
                     + of_nat (min 30 (2 ^ (request_count st div 5)))
               \<and> last_request_time (fst (check_rate_limit st t)) =
                   finished (snd (check_rate_limit st t))"
    using check_rate_limit_backoff[OF assms(1)] by simp
  have reset: "\<forall>t. reset_time st \<le> t \<longrightarrow>
               backoff_sleep (snd (check_rate_limit st t)) = None
               \<and> request_count (fst (check_rate_limit st t)) = 1"
    by (simp add: check_rate_limit_def window_reset_def Let_def)
  have srt: "sorted (slept (fst (acquire_run st now gaps)))"
    using sorted_backoff[of "request_count st" "length gaps"] by (simp add: sl)
  have cap: "\<forall>d \<in> set (slept (fst (acquire_run st now gaps))). d \<le> 30"
    by (simp add: sl)
  from run srt cap one reset show ?thesis by blast
qed

lemma ex_run:
  "fst (acquire_run ex_rate 10 [0, 5, 0]) =
     [\<lparr>started = 10, spacing_sleep = None, backoff_sleep = Some 2, finished = 12\<rparr>,
      \<lparr>started = 17, spacing_sleep = None, backoff_sleep = Some 2, finished = 19\<rparr>,
      \<lparr>started = 19, spacing_sleep = Some 1, backoff_sleep = Some 4, finished = 24\<rparr>]"
  by (simp add: ex_rate_def check_rate_limit_def window_reset_def Let_def)

theorem rate_limit_backoff_run_witness:
  "slept (fst (acquire_run ex_rate 10 [0, 5, 0])) = [2, 2, 4]
   \<and> map finished (fst (acquire_run ex_rate 10 [0, 5, 0])) = [12, 19, 24]
   \<and> sorted (slept (fst (acquire_run ex_rate 10 [0, 5, 0])))
   \<and> request_count (snd (acquire_run ex_rate 10 [0, 5, 0])) = 11"
proof -
  have h1: "5 < request_count ex_rate" by (simp add: ex_rate_def)
  have h2: "\<forall>a \<in> set (fst (acquire_run ex_rate 10 [0, 5, 0])). started a < reset_time ex_rate"
    unfolding ex_run by (simp add: ex_rate_def)
  have v: "slept (fst (acquire_run ex_rate 10 [0, 5, 0])) = [2, 2, 4]"
    "map finished (fst (acquire_run ex_rate 10 [0, 5, 0])) = [12, 19, 24]"
    unfolding ex_run by (simp_all add: slept_def seconds_def)
  from rate_limit_backoff_run[OF h1 h2]
  have s: "sorted (slept (fst (acquire_run ex_rate 10 [0, 5, 0])))"
    and c: "request_count (snd (acquire_run ex_rate 10 [0, 5, 0])) = request_count ex_rate + length [0::rat, 5, 0]"
    by blast+
  from c have c': "request_count (snd (acquire_run ex_rate 10 [0, 5, 0])) = 11"
    by (simp add: ex_rate_def)
  from v s c' show ?thesis by blast
qed

section \<open>Properties of the cache\<close>

lemma starts_with_iff: "starts_with p s \<longleftrightarrow> (\<exists>b. s = p @ b)"
  by (induction p s rule: starts_with.induct) auto

lemma py_in_iff: "py_in p s \<longleftrightarrow> (\<exists>a b. s = a @ p @ b)"
proof (induction s)
  case Nil
  then show ?case by auto
next
  case (Cons d s)
  show ?case
  proof
    assume "py_in p (d # s)"
    then consider "starts_with p (d # s)" | "py_in p s" by auto
    then show "\<exists>a b. d # s = a @ p @ b"
    proof cases
      case 1
      then obtain b where "d # s = p @ b" by (auto simp: starts_with_iff)
      then have "d # s = [] @ p @ b" by simp
      then show ?thesis by blast
    next
      case 2
      with Cons obtain a b where "s = a @ p @ b" by auto
      then have "d # s = (d # a) @ p @ b" by simp
      then show ?thesis by blast
    qed
  next
    assume "\<exists>a b. d # s = a @ p @ b"
    then obtain a b where ab: "d # s = a @ p @ b" by auto
    show "py_in p (d # s)"
    proof (cases a)
      case Nil
      with ab have "starts_with p (d # s)" by (auto simp: starts_with_iff)
      then show ?thesis by simp
    next
      case (Cons x a')
      with ab have "s = a' @ p @ b" by simp
      with Cons.IH have "py_in p s" by blast
      then show ?thesis by simp
    qed
  qed
qed

lemma expiry_values:
  "expiry_time ''STOCK_PRICE'' = 3600" "expiry_time ''HISTORICAL_DATA'' = 86400"
  "expiry_time ''SEC_FILING'' = 604800" "expiry_time ''OTHER'' = 3600"
  by (simp_all add: expiry_time_def CACHE_EXPIRY_def)

lemma expiry_time_nonneg: "0 \<le> expiry_time cache_type"
  by (simp add: expiry_time_def CACHE_EXPIRY_def)

lemma store_set_nonempty: "store_set k d st \<noteq> []"
  by (cases st) (auto split: if_splits)

lemma map_of_store_set: "map_of (store_set k d st) k' = (if k' = k then Some d else map_of st k')"
  by (induction st) auto

lemma map_of_store_delete:
  "map_of (store_delete k st) k' = (if k' = k then None else map_of st k')"
  by (induction st) (auto simp: store_delete_def)

lemma map_of_delete_all:
  "map_of (delete_all keys st) k = (if k \<in> set keys then None else map_of st k)"
  by (induction keys arbitrary: st) (auto simp: map_of_store_delete)

lemma keys_to_delete_set:
  "k \<in> set (keys_to_delete p st) \<longleftrightarrow> k \<in> fst ` set st \<and> (\<exists>a b. k = a @ p @ b)"
  by (auto simp: keys_to_delete_def py_in_iff)

lemma map_of_cleared:
  "map_of (delete_all (keys_to_delete p st) st) k =
     (if (\<exists>a b. k = a @ p @ b) then None else map_of st k)"
proof (cases "k \<in> fst ` set st")
  case True
  then show ?thesis by (simp add: map_of_delete_all keys_to_delete_set)
next
  case False
  then have "map_of st k = None" by (simp add: map_of_eq_None_iff)
  with False show ?thesis by (simp add: map_of_delete_all keys_to_delete_set)
qed

text \<open>
  Claim C6 against the code. On an available store that holds no entry the guard
  \<open>if not self.cache\<close> of \<open>set\<close> is taken: \<open>set(k, v, cat)\<close> returns \<open>False\<close> and stores
  nothing, and the \<open>get(k, cat')\<close> that follows returns \<open>None\<close>, at any time. On a store
  that holds an entry the round trip is as claimed: \<open>set\<close> at time \<open>t0\<close> stores
  \<open>{timestamp: t0, value: v}\<close> under \<open>k\<close>; \<open>get\<close> at time \<open>t1\<close> returns \<open>v\<close> while
  \<open>t1 - t0 \<le> ttl(cat')\<close> and \<open>None\<close> afterwards, the age being compared with the TTL of
  the category given to \<open>get\<close>; \<open>get\<close> only reads the store, so the entry stays.
\<close>

theorem cache_round_trip_empty_store:
  "cache_set (Some []) t0 k v cat = (False, Some [])
   \<and> cache_get (snd (cache_set (Some []) t0 k v cat)) t1 k cat' = PNone
   \<and> (st \<noteq> [] \<longrightarrow>
        fst (cache_set (Some st) t0 k v cat) = True
        \<and> (\<exists>st'. snd (cache_set (Some st) t0 k v cat) = Some st'
              \<and> map_of st' k = Some \<lparr>timestamp = t0, cvalue = v\<rparr>)
        \<and> (t1 - t0 \<le> expiry_time cat' \<longrightarrow>
             cache_get (snd (cache_set (Some st) t0 k v cat)) t1 k cat' = v)
        \<and> (expiry_time cat' < t1 - t0 \<longrightarrow>
             cache_get (snd (cache_set (Some st) t0 k v cat)) t1 k cat' = PNone))"
  by (simp add: cache_set_def cache_get_def not_cache_def store_set_nonempty map_of_store_set)

theorem cache_round_trip_empty_store_witness:
  "cache_set (Some []) 100 ''ticker_info_AAPL'' (PStr ''x'') ''STOCK_PRICE'' = (False, Some [])
   \<and> cache_get (snd (cache_set (Some []) 100 ''ticker_info_AAPL'' (PStr ''x'') ''STOCK_PRICE''))
        100 ''ticker_info_AAPL'' ''STOCK_PRICE'' = PNone
   \<and> cache_get (snd (cache_set (Some ex_store) 100 ''ticker_info_AAPL'' (PStr ''x'') ''STOCK_PRICE''))
        3700 ''ticker_info_AAPL'' ''STOCK_PRICE'' = PStr ''x''"
proof -
  note t = cache_round_trip_empty_store[of 100 "''ticker_info_AAPL''" "PStr ''x''" "''STOCK_PRICE''"
      _ "''STOCK_PRICE''"]
  from t[of 100 ex_store]
  have a: "cache_set (Some []) 100 ''ticker_info_AAPL'' (PStr ''x'') ''STOCK_PRICE'' = (False, Some [])"
    and b: "cache_get (snd (cache_set (Some []) 100 ''ticker_info_AAPL'' (PStr ''x'') ''STOCK_PRICE''))
        100 ''ticker_info_AAPL'' ''STOCK_PRICE'' = PNone"
    by blast+
  have h1: "ex_store \<noteq> []" by (simp add: ex_store_def)
  have h2: "(3700::rat) - 100 \<le> expiry_time ''STOCK_PRICE''" by (simp add: expiry_values)
  from t[of 3700 ex_store] h1 h2
  have c: "cache_get (snd (cache_set (Some ex_store) 100 ''ticker_info_AAPL'' (PStr ''x'') ''STOCK_PRICE''))
        3700 ''ticker_info_AAPL'' ''STOCK_PRICE'' = PStr ''x''"
    by blast
  from a b c show ?thesis by blast
qed

text \<open>
  Claim C5, as stated, fails: \<open>clear\<close> returns the boolean \<open>True\<close>, whether it deleted two
  keys (the two keys of the example store that contain \<open>AAPL\<close>) or none (a store whose
  only key does not contain it), so its result is not the count of entries removed.
\<close>

theorem cache_clear_counterexample:
  "fst (cache_clear (Some ex_store) (Some ''AAPL'')) = True
   \<and> keys_to_delete ''AAPL'' ex_store = [''cik_AAPL'', ''facts_AAPL'']
   \<and> snd (cache_clear (Some ex_store) (Some ''AAPL'')) = Some [(''cik_MSFT'', ex_entry)]
   \<and> fst (cache_clear (Some ex_store_other) (Some ''AAPL'')) = True
   \<and> keys_to_delete ''AAPL'' ex_store_other = []
   \<and> snd (cache_clear (Some ex_store_other) (Some ''AAPL'')) = Some ex_store_other"
  by (simp add: cache_clear_def not_cache_def keys_to_delete_def store_delete_def ex_store_def
      ex_store_other_def)

text \<open>
  Claim C5, amended. On a cache that holds at least one entry, \<open>clear(pattern)\<close> returns
  \<open>True\<close>; with a non-empty pattern it removes exactly the entries whose key contains the
  pattern as a substring and keeps the others; with the pattern absent (or the empty
  string) it wipes everything. In the disabled state it returns \<open>False\<close> and changes
  nothing. The count of removed entries is only logged.
\<close>

theorem cache_clear_effect:
  assumes "st \<noteq> []"
  shows "fst (cache_clear (Some st) pattern) = True
   \<and> (pattern = None \<or> pattern = Some [] \<longrightarrow> snd (cache_clear (Some st) pattern) = Some [])
   \<and> (\<forall>p. pattern = Some p \<and> p \<noteq> [] \<longrightarrow>
        (\<exists>st'. snd (cache_clear (Some st) pattern) = Some st'
           \<and> (\<forall>k. map_of st' k = (if (\<exists>a b. k = a @ p @ b) then None else map_of st k))))
   \<and> cache_clear None pattern = (False, None)"
  using assms
  by (auto simp: cache_clear_def not_cache_def map_of_cleared split: option.splits)

theorem cache_clear_effect_witness:
  "fst (cache_clear (Some ex_store) (Some ''AAPL'')) = True
   \<and> snd (cache_clear (Some ex_store) None) = Some []"
proof -
  have h: "ex_store \<noteq> []" by (simp add: ex_store_def)
  from cache_clear_effect[OF h, of "Some ''AAPL''"]
  have a: "fst (cache_clear (Some ex_store) (Some ''AAPL'')) = True" by blast
  have "(None :: string option) = None \<or> (None :: string option) = Some []" by simp
  with cache_clear_effect[OF h, of None]
  have b: "snd (cache_clear (Some ex_store) None) = Some []" by blast
  from a b show ?thesis by (rule conjI)
qed

text \<open>
  Claim C9. \<open>FinancialDataAPI.clear_cache(pattern)\<close> returns \<open>True\<close> for every cache and
  pattern: it drops the result of \<open>CacheManager.clear\<close>, which in the model never raises.
  In particular it returns \<open>True\<close> when \<open>CacheManager.clear\<close> returns \<open>False\<close> because the
  cache is disabled, so its result does not say whether anything was cleared.
\<close>

theorem clear_cache_always_true:
  "fst (clear_cache c pattern) = True
   \<and> snd (clear_cache c pattern) = snd (cache_clear c pattern)
   \<and> fst (cache_clear None pattern) = False
   \<and> clear_cache None pattern = (True, None)"
  by (simp add: clear_cache_def cache_clear_def not_cache_def split: prod.splits)

theorem clear_cache_always_true_witness:
  "clear_cache None (Some ''AAPL'') = (True, None) \<and> cache_clear None (Some ''AAPL'') = (False, None)"
  using clear_cache_always_true[of None "Some ''AAPL''"]
  by (simp add: cache_clear_def not_cache_def)

section \<open>Properties of the aggregator\<close>

lemma run_steps_Cons:
  "fst (run_steps (f # fs) cd) =
     (if snd (f cd) = None then fst (run_steps fs (fst (f cd))) else fst (f cd))"
  by (cases "f cd") (auto split: option.splits)

lemma step_ticker_info_char:
  "fst (step_ticker_info co t cd) = cd\<lparr>basic_info := merged (c_get_ticker_info co t) (basic_info cd)\<rparr>"
  "snd (step_ticker_info co t cd) = None \<longleftrightarrow> ran_ticker_info co t"
  by (auto simp: step_ticker_info_def merged_def ran_ticker_info_def returned_def split: sum.splits)

lemma step_historical_char:
  "fst (step_historical co t cd) =
     cd\<lparr>historical_data := merged_frame (c_get_historical_data co t) (historical_data cd)\<rparr>"
  "snd (step_historical co t cd) = None \<longleftrightarrow> ran_historical co t"
  by (auto simp: step_historical_def ran_historical_def returned_def merged_frame_def
      split: sum.splits frame_result.splits)

lemma step_options_char:
  "fst (step_options co t cd) =
     cd\<lparr>options_data := merged_key (c_get_options_chain co t) (options_data cd)\<rparr>"
  "snd (step_options co t cd) = None \<longleftrightarrow> ran_options co t"
  by (auto simp: step_options_def ran_options_def returned_def merged_key_def split: sum.splits)

lemma step_implied_volatility_char:
  "fst (step_implied_volatility co t cd) =
     cd\<lparr>implied_volatility := merged (c_calculate_implied_volatility co t) (implied_volatility cd)\<rparr>"
  "snd (step_implied_volatility co t cd) = None \<longleftrightarrow> ran_implied_volatility co t"
  by (auto simp: step_implied_volatility_def merged_def ran_implied_volatility_def returned_def
      split: sum.splits)

lemma step_recent_10k_char:
  "fst (step_recent_10k co t cd) = cd\<lparr>recent_10k := merged (c_get_recent_10k co t) (recent_10k cd)\<rparr>"
  "snd (step_recent_10k co t cd) = None \<longleftrightarrow> ran_recent_10k co t"
  by (auto simp: step_recent_10k_def merged_def ran_recent_10k_def returned_def split: sum.splits)

lemma step_recent_8k_char:
  "fst (step_recent_8k co t cd) = cd\<lparr>recent_8k := merged (c_get_recent_8k co t) (recent_8k cd)\<rparr>"
  "snd (step_recent_8k co t cd) = None \<longleftrightarrow> ran_recent_8k co t"
  by (auto simp: step_recent_8k_def merged_def ran_recent_8k_def split: sum.splits)

lemma step_key_financials_char:
  "fst (step_key_financials co t cd) =
     cd\<lparr>key_financials := merged (c_extract_key_financials co t) (key_financials cd)\<rparr>"
  by (auto simp: step_key_financials_def merged_def split: sum.splits)

lemmas step_chars = step_ticker_info_char step_historical_char step_options_char
  step_implied_volatility_char step_recent_10k_char step_recent_8k_char step_key_financials_char

lemma run_steps_best_effort:
  "fst (run_steps
          [step_ticker_info co t, step_historical co t, step_options co t,
           step_implied_volatility co t, step_recent_10k co t, step_recent_8k co t,
           step_key_financials co t]
          (default_composite stamp)) = best_effort co stamp t"
  by (simp add: run_steps_Cons step_chars best_effort_def default_composite_def
      reached_historical_def reached_options_def reached_implied_volatility_def
      reached_recent_10k_def reached_recent_8k_def reached_key_financials_def
      del: run_steps.simps(2))

lemma best_effort_first_raises:
  "c_get_ticker_info co t = Inl e \<Longrightarrow> best_effort co stamp t = default_composite stamp"
  by (simp add: best_effort_def default_composite_def merged_def reached_historical_def
      reached_options_def reached_implied_volatility_def reached_recent_10k_def
      reached_recent_8k_def reached_key_financials_def ran_ticker_info_def returned_def)

lemma best_effort_10k_raises:
  "c_get_recent_10k co t = Inl e \<Longrightarrow>
   recent_10k (best_effort co stamp t) = PNone \<and> recent_8k (best_effort co stamp t) = PList []
   \<and> key_financials (best_effort co stamp t) = PNone"
  by (simp add: best_effort_def merged_def reached_recent_8k_def reached_key_financials_def
      ran_recent_10k_def)

text \<open>
  Claim C3. For every ticker whose \<open>upper()\<close> returns (a string in particular) and
  whatever the collaborators do (each call may return or raise, at any step),
  \<open>get_stock_data\<close> returns the best-effort record: every field whose step was reached
  holds the value its call returned, merged when present, and every field of a step
  after the one that raised is at its default (\<open>basic_info {}\<close>, \<open>implied_volatility
  None\<close>, no \<open>historical_data\<close> and \<open>options_data\<close> keys, \<open>recent_10k None\<close>,
  \<open>recent_8k []\<close>, \<open>key_financials None\<close>). In particular, if \<open>get_ticker_info\<close> raises,
  the record is the default record; and if the filings call \<open>get_recent_10k\<close> raises
  after \<open>get_ticker_info\<close> returned a truthy value, \<open>basic_info\<close> is that value and the
  filings fields are at their defaults.
\<close>

theorem get_stock_data_best_effort:
  assumes "py_upper (c_str_upper co) ticker = Inr t"
  shows "get_stock_data co stamp ticker = Inr (best_effort co stamp t)
     \<and> (\<forall>e. c_get_ticker_info co t = Inl e \<longrightarrow> best_effort co stamp t = default_composite stamp)
     \<and> (\<forall>info e. c_get_ticker_info co t = Inr info \<and> truthy info \<and>
             c_get_recent_10k co t = Inl e \<longrightarrow>
           basic_info (best_effort co stamp t) = info
           \<and> recent_10k (best_effort co stamp t) = PNone
           \<and> recent_8k (best_effort co stamp t) = PList []
           \<and> key_financials (best_effort co stamp t) = PNone)"
proof -
  have r: "get_stock_data co stamp ticker = Inr (best_effort co stamp t)"
    using assms by (simp add: get_stock_data_def run_steps_best_effort del: run_steps.simps)
  have b: "\<forall>info. c_get_ticker_info co t = Inr info \<and> truthy info \<longrightarrow>
             basic_info (best_effort co stamp t) = info"
    by (simp add: best_effort_def merged_def)
  from r b best_effort_first_raises[of co t _ stamp] best_effort_10k_raises[of co t _ stamp]
  show ?thesis by blast
qed

lemma ex_upper: "upper ''aapl'' = ''AAPL''"
  by (simp add: upper_def upper_char_def char_of_def bit_Suc_0_iff)

theorem get_stock_data_best_effort_witness:
  "get_stock_data ex_collaborators ''2024-01-01T00:00:00'' (PStr ''aapl'') =
     Inr \<lparr>basic_info = ex_info, implied_volatility = PNone,
          historical_data = None, options_data = None,
          recent_10k = PNone, recent_8k = PList [], key_financials = PNone,
          last_updated = ''2024-01-01T00:00:00''\<rparr>
   \<and> get_stock_data ex_collaborators_8k ''2024-01-01T00:00:00'' (PStr ''aapl'') =
     Inr \<lparr>basic_info = ex_info, implied_volatility = PNone,
          historical_data = None, options_data = None,
          recent_10k = ex_filing, recent_8k = PList [], key_financials = PNone,
          last_updated = ''2024-01-01T00:00:00''\<rparr>"
proof -
  have h1: "py_upper (c_str_upper ex_collaborators) (PStr ''aapl'') = Inr (PStr ''AAPL'')"
    by (simp add: ex_collaborators_def ex_upper)
  have h2: "py_upper (c_str_upper ex_collaborators_8k) (PStr ''aapl'') = Inr (PStr ''AAPL'')"
    by (simp add: ex_collaborators_8k_def ex_collaborators_def ex_upper)
  from get_stock_data_best_effort[OF h1, of "''2024-01-01T00:00:00''"]
  have a: "get_stock_data ex_collaborators ''2024-01-01T00:00:00'' (PStr ''aapl'') =
     Inr (best_effort ex_collaborators ''2024-01-01T00:00:00'' (PStr ''AAPL''))" by blast
  from get_stock_data_best_effort[OF h2, of "''2024-01-01T00:00:00''"]
  have b: "get_stock_data ex_collaborators_8k ''2024-01-01T00:00:00'' (PStr ''aapl'') =
     Inr (best_effort ex_collaborators_8k ''2024-01-01T00:00:00'' (PStr ''AAPL''))" by blast
  have va: "best_effort ex_collaborators ''2024-01-01T00:00:00'' (PStr ''AAPL'') =
     \<lparr>basic_info = ex_info, implied_volatility = PNone,
      historical_data = None, options_data = None,
      recent_10k = PNone, recent_8k = PList [], key_financials = PNone,
      last_updated = ''2024-01-01T00:00:00''\<rparr>"
    by (simp add: best_effort_def ex_collaborators_def merged_def merged_key_def merged_frame_def
        reached_historical_def reached_options_def reached_implied_volatility_def
        reached_recent_10k_def reached_recent_8k_def reached_key_financials_def
        ran_ticker_info_def ran_historical_def ran_options_def ran_implied_volatility_def
        ran_recent_10k_def ran_recent_8k_def returned_def ex_info_def)
  have vb: "best_effort ex_collaborators_8k ''2024-01-01T00:00:00'' (PStr ''AAPL'') =
     \<lparr>basic_info = ex_info, implied_volatility = PNone,
      historical_data = None, options_data = None,
      recent_10k = ex_filing, recent_8k = PList [], key_financials = PNone,
      last_updated = ''2024-01-01T00:00:00''\<rparr>"
    by (simp add: best_effort_def ex_collaborators_8k_def ex_collaborators_def merged_def
        merged_key_def merged_frame_def
        reached_historical_def reached_options_def reached_implied_volatility_def
        reached_recent_10k_def reached_recent_8k_def reached_key_financials_def
        ran_ticker_info_def ran_historical_def ran_options_def ran_implied_volatility_def
        ran_recent_10k_def ran_recent_8k_def returned_def ex_info_def ex_filing_def)
  from a b show ?thesis unfolding va vb by (rule conjI)
qed

text \<open>
  Claim C10, as stated, fails: \<open>bytes\<close> and \<open>bytearray\<close> values are not strings, yet they
  have an \<open>upper()\<close> method, so the first statement does not raise and the record is
  returned; with source clients that give their empty results for such a ticker, it
  is the default record.
\<close>

theorem non_string_counterexample:
  "\<not> is_str (PBytes ''aapl'')
   \<and> get_stock_data degrading_collaborators ''2024-01-01T00:00:00'' (PBytes ''aapl'') =
       Inr (default_composite ''2024-01-01T00:00:00'')
   \<and> get_stock_data degrading_collaborators ''2024-01-01T00:00:00'' (PByteArray ''aapl'') =
       Inr (default_composite ''2024-01-01T00:00:00'')"
  by (simp add: get_stock_data_def degrading_collaborators_def default_composite_def
      step_ticker_info_def step_historical_def step_options_def step_implied_volatility_def
      step_recent_10k_def step_recent_8k_def step_key_financials_def)

text \<open>
  Claim C10, amended. \<open>ticker.upper()\<close> is evaluated before the \<open>try\<close> block: for every
  argument without an \<open>upper()\<close> method (\<open>None\<close>, a boolean, a number, a list, a
  dictionary) \<open>get_stock_data\<close> raises \<open>AttributeError\<close> instead of returning a record,
  and it returns a record exactly when the argument has the method (a string, \<open>bytes\<close>
  or \<open>bytearray\<close>).
\<close>

theorem get_stock_data_without_upper:
  "(\<not> has_upper ticker \<longrightarrow> get_stock_data co stamp ticker = Inl AttributeError)
   \<and> ((\<exists>r. get_stock_data co stamp ticker = Inr r) \<longleftrightarrow> has_upper ticker)"
  by (cases ticker) (simp_all add: get_stock_data_def)

theorem get_stock_data_without_upper_witness:
  "get_stock_data ex_collaborators ''2024-01-01T00:00:00'' PNone = Inl AttributeError
   \<and> get_stock_data ex_collaborators ''2024-01-01T00:00:00'' (PInt 5) = Inl AttributeError"
proof -
  have a: "\<not> has_upper PNone" and b: "\<not> has_upper (PInt 5)" by simp_all
  from a get_stock_data_without_upper[of PNone ex_collaborators "''2024-01-01T00:00:00''"]
  have 1: "get_stock_data ex_collaborators ''2024-01-01T00:00:00'' PNone = Inl AttributeError"
    by blast
  from b get_stock_data_without_upper[of "PInt 5" ex_collaborators "''2024-01-01T00:00:00''"]
  have 2: "get_stock_data ex_collaborators ''2024-01-01T00:00:00'' (PInt 5) = Inl AttributeError"
    by blast
  from 1 2 show ?thesis by (rule conjI)
qed

section \<open>Properties of the extraction of key financials\<close>

lemma append_entries_eq:
  "append_entries entries series = series @ map fin_row (filter is_10k entries)"
  by (induction entries arbitrary: series) (simp_all add: is_10k_def)

lemma append_units_eq:
  "append_units us series =
     series @ concat (map (\<lambda>(unit, entries). map fin_row (filter is_10k entries)) us)"
  by (induction us arbitrary: series) (auto simp: append_entries_eq)

lemma append_tag_eq: "append_tag us_gaap tag series = series @ append_tag us_gaap tag []"
  by (simp add: append_tag_def append_units_eq split: option.splits)

lemma revenue_loop_eq:
  "revenue_loop us_gaap tags series = series @ concat (map (\<lambda>tag. append_tag us_gaap tag []) tags)"
proof (induction tags arbitrary: series)
  case Nil
  then show ?case by simp
next
  case (Cons tag tags)
  show ?case by (simp add: Cons.IH append_tag_eq[of us_gaap tag series])
qed

lemma append_tag_set:
  "r \<in> set (append_tag us_gaap tag []) \<longleftrightarrow>
     (\<exists>c us unit entries entry. map_of us_gaap tag = Some c \<and> units c = Some us \<and>
        (unit, entries) \<in> set us \<and> entry \<in> set entries \<and> e_form entry = Some ''10-K'' \<and>
        r = fin_row entry)"
proof (cases "map_of us_gaap tag")
  case None
  then show ?thesis by (simp add: append_tag_def)
next
  case (Some c)
  show ?thesis
  proof (cases "units c")
    case None
    with Some show ?thesis by (simp add: append_tag_def)
  next
    case (Some us)
    with \<open>map_of us_gaap tag = Some c\<close> show ?thesis
      by (auto simp: append_tag_def append_units_eq is_10k_def)
  qed
qed

lemma sorted_reverse_mset: "mset (sorted_reverse key xs) = mset xs"
  by (simp add: sorted_reverse_def)

lemma sorted_reverse_desc: "sorted (rev (map key (sorted_reverse key xs)))"
  by (simp add: sorted_reverse_def rev_map)

lemma sorted_reverse_stable:
  "filter (\<lambda>y. key y = k) (sorted_reverse key xs) = filter (\<lambda>y. key y = k) xs"
  by (simp add: sorted_reverse_def rev_filter[symmetric] sort_key_stable)

lemma extract_key_financials_absent:
  "extract_key_financials ticker None = None"
  "facts fs = None \<Longrightarrow> extract_key_financials ticker (Some fs) = None"
  "facts fs = Some taxonomies \<Longrightarrow> map_of taxonomies ''us-gaap'' = None \<Longrightarrow>
   extract_key_financials ticker (Some fs) =
     Some \<lparr>fin_ticker = ticker, revenue = [], net_income = [], eps = []\<rparr>"
  by (simp_all add: extract_key_financials_def sorted_reverse_def)

lemma le1: "''2020-02-01'' \<le> ''2021-02-01''"
  by (simp add: list_le_def)

lemma le2: "\<not> ''2021-02-01'' \<le> ''2020-02-01''"
  by (simp add: list_le_def)

text \<open>
  Claim C1, as stated, fails: the loop over the revenue tags has no \<open>break\<close>. For a
  taxonomy with annual entries under both \<open>Revenues\<close> (value 100) and \<open>SalesRevenueNet\<close>
  (value 90), the revenue series holds both entries, while taking only the first
  matching tag gives the entry of \<open>Revenues\<close> alone.
\<close>

theorem first_match_counterexample:
  "map fe_value (revenue (the (extract_key_financials ''AAPL'' (Some ex_facts)))) = [100, 90]
   \<and> map fe_value (spec_first_matching_tag ex_us_gaap revenue_tags) = [100]"
  by (simp add: extract_key_financials_def ex_facts_def ex_us_gaap_def revenue_tags_def
      append_tag_def fin_row_def sorted_reverse_def Let_def le1 le2)

text \<open>
  Claim C1, amended. For every company-facts payload that has the \<open>us-gaap\<close> taxonomy,
  \<open>extract_key_financials\<close> returns a result whose revenue series holds the entries of
  every tag present among \<open>Revenue\<close>, \<open>Revenues\<close>, \<open>SalesRevenueNet\<close> (a merge of the tags,
  not the first match only), whose net-income and EPS series hold the entries of their
  one tag, where the entries taken from a tag are exactly those of its units whose form
  equals \<open>10-K\<close>, and each series is sorted by filing date descending.
\<close>

theorem extract_key_financials_merge:
  assumes "facts fs = Some taxonomies" and "map_of taxonomies ''us-gaap'' = Some us_gaap"
  shows "\<exists>fin. extract_key_financials ticker (Some fs) = Some fin
     \<and> mset (revenue fin) =
         mset (append_tag us_gaap ''Revenue'' []) + mset (append_tag us_gaap ''Revenues'' [])
         + mset (append_tag us_gaap ''SalesRevenueNet'' [])
     \<and> mset (net_income fin) = mset (append_tag us_gaap ''NetIncomeLoss'' [])
     \<and> mset (eps fin) = mset (append_tag us_gaap ''EarningsPerShareDiluted'' [])
     \<and> sorted (rev (map filing_date (revenue fin)))
     \<and> sorted (rev (map filing_date (net_income fin)))
     \<and> sorted (rev (map filing_date (eps fin)))
     \<and> (\<forall>tag r. r \<in> set (append_tag us_gaap tag []) \<longleftrightarrow>
           (\<exists>c us unit entries entry. map_of us_gaap tag = Some c \<and> units c = Some us \<and>
              (unit, entries) \<in> set us \<and> entry \<in> set entries \<and>
              e_form entry = Some ''10-K'' \<and> r = fin_row entry))"
  using assms append_tag_set[of _ us_gaap]
  by (simp add: extract_key_financials_def Let_def revenue_loop_eq revenue_tags_def
      sorted_reverse_mset sorted_reverse_desc)

theorem extract_key_financials_merge_witness:
  "map filing_date (revenue (the (extract_key_financials ''AAPL'' (Some ex_facts)))) =
     [''2021-02-01'', ''2020-02-01'']
   \<and> sorted (rev (map filing_date (revenue (the (extract_key_financials ''AAPL'' (Some ex_facts))))))"
proof -
  have h1: "facts ex_facts = Some [(''us-gaap'', ex_us_gaap)]" by (simp add: ex_facts_def)
  have h2: "map_of [(''us-gaap'', ex_us_gaap)] ''us-gaap'' = Some ex_us_gaap" by simp
  from extract_key_financials_merge[OF h1 h2, of "''AAPL''"]
  have a: "sorted (rev (map filing_date (revenue (the (extract_key_financials ''AAPL'' (Some ex_facts))))))"
    by auto
  have b: "map filing_date (revenue (the (extract_key_financials ''AAPL'' (Some ex_facts)))) =
     [''2021-02-01'', ''2020-02-01'']"
    by (simp add: extract_key_financials_def ex_facts_def ex_us_gaap_def revenue_tags_def
        append_tag_def fin_row_def sorted_reverse_def Let_def le1 le2)
  from b a show ?thesis by (rule conjI)
qed

section \<open>Properties of the implied-volatility aggregation\<close>

lemma collect_iv_eq: "collect_iv cs ivs = ivs @ List.map_filter positive_iv cs"
  by (induction cs arbitrary: ivs) (auto simp: List.map_filter_def positive_iv_def split: option.splits)

lemma side_iv_eq:
  "side_iv side = (case side of None \<Rightarrow> [] | Some cs \<Rightarrow> List.map_filter positive_iv cs)"
  by (simp add: side_iv_def collect_iv_eq List.map_filter_def split: option.splits)

lemma side_iv_positive: "v \<in> set (side_iv side) \<Longrightarrow> 0 < v"
  by (auto simp: side_iv_eq List.map_filter_def positive_iv_def split: option.splits if_splits)

lemma avg_or_zero_positive:
  assumes "xs \<noteq> []" and "\<And>v. v \<in> set xs \<Longrightarrow> (0::rat) < v"
  shows "0 < avg_or_zero xs"
proof -
  from assms obtain x xs' where xs: "xs = x # xs'" by (cases xs) auto
  have "0 \<le> sum_list xs'" using assms(2) xs by (intro sum_list_nonneg) (auto intro: less_imp_le)
  moreover have "0 < x" using assms(2) xs by simp
  ultimately have "0 < sum_list xs" using xs by simp
  then show ?thesis using assms(1) by (simp add: avg_or_zero_def)
qed

lemma avg_or_zero_nonneg_side: "0 \<le> avg_or_zero (side_iv side)"
proof (cases "side_iv side = []")
  case True
  then show ?thesis by (simp add: avg_or_zero_def)
next
  case False
  then have "0 < avg_or_zero (side_iv side)"
    by (rule avg_or_zero_positive) (rule side_iv_positive)
  then show ?thesis by simp
qed

lemma expiration_average_positive_iff:
  "0 < average_iv (expiration_average ch) \<longleftrightarrow> side_iv (calls ch) \<noteq> [] \<or> side_iv (puts ch) \<noteq> []"
proof (cases "side_iv (calls ch) = [] \<and> side_iv (puts ch) = []")
  case True
  then show ?thesis by (simp add: expiration_average_def Let_def)
next
  case False
  then consider "side_iv (calls ch) \<noteq> []" | "side_iv (puts ch) \<noteq> []" by blast
  then have "0 < avg_or_zero (side_iv (calls ch)) + avg_or_zero (side_iv (puts ch))"
  proof cases
    case 1
    then have "0 < avg_or_zero (side_iv (calls ch))"
      by (rule avg_or_zero_positive) (rule side_iv_positive)
    with avg_or_zero_nonneg_side[of "puts ch"] show ?thesis by simp
  next
    case 2
    then have "0 < avg_or_zero (side_iv (puts ch))"
      by (rule avg_or_zero_positive) (rule side_iv_positive)
    with avg_or_zero_nonneg_side[of "calls ch"] show ?thesis by simp
  qed
  with False show ?thesis by (auto simp: expiration_average_def Let_def)
qed

lemma iv_loop_eq:
  "iv_loop od (all_ivs, exps) =
     (all_ivs @ filter (\<lambda>x. 0 < x) (map (\<lambda>(date, ch). average_iv (expiration_average ch)) od),
      exps @ map (\<lambda>(date, ch). (date, expiration_average ch)) od)"
  by (induction od arbitrary: all_ivs exps) (auto simp: Let_def)

lemma ex_values:
  "average_iv (expiration_average ex_chain_both) = 7/40"
  "average_iv (expiration_average ex_chain_none) = 0"
  by (simp_all add: expiration_average_def ex_chain_both_def ex_chain_none_def
      contract_iv_def side_iv_def avg_or_zero_def Let_def)

text \<open>
  Claim C2, as stated, fails: with calls at 0.2 and 0.3 and no puts, the per-expiration
  average of the code is \<open>(0.25 + 0) / 2 = 0.125\<close>: the missing side counts as zero.
  Excluding the missing side, as the claim says, would give 0.25.
\<close>

theorem missing_side_counterexample:
  "average_iv (expiration_average ex_chain_calls) = 1/8
   \<and> spec_expiration_average ex_chain_calls = 1/4"
  by (simp add: expiration_average_def spec_expiration_average_def ex_chain_calls_def
      contract_iv_def side_iv_def avg_or_zero_def Let_def)

text \<open>
  Claim C2, amended. For every options chain, each expiration gets the average of the
  positive implied volatilities of its calls, the same for its puts (0 for a side
  without positive values), and as its average the half of the sum of these two
  figures, or 0 when neither side has a positive value; so a side without positive
  values counts as zero in the per-expiration average. That average is positive exactly
  when some side has a positive value. The overall \<open>average_iv\<close> is the mean of the
  positive per-expiration averages only (0 when there is none): expirations without
  values are excluded, not averaged as zero.
\<close>

theorem implied_volatility_average:
  "expirations (implied_volatility_of ticker stamp od) =
      map (\<lambda>(date, ch). (date, expiration_average ch)) od
   \<and> overall_average_iv (implied_volatility_of ticker stamp od) =
      avg_or_zero (filter (\<lambda>x. 0 < x) (map (\<lambda>(date, ch). average_iv (expiration_average ch)) od))
   \<and> (\<forall>ch. calls_iv (expiration_average ch) = avg_or_zero (side_iv (calls ch))
          \<and> puts_iv (expiration_average ch) = avg_or_zero (side_iv (puts ch))
          \<and> average_iv (expiration_average ch) =
             (if side_iv (calls ch) = [] \<and> side_iv (puts ch) = [] then 0
              else (avg_or_zero (side_iv (calls ch)) + avg_or_zero (side_iv (puts ch))) / 2)
          \<and> (0 < average_iv (expiration_average ch) \<longleftrightarrow>
               side_iv (calls ch) \<noteq> [] \<or> side_iv (puts ch) \<noteq> []))
   \<and> (\<forall>side. side_iv side =
          (case side of None \<Rightarrow> [] | Some cs \<Rightarrow> List.map_filter positive_iv cs))
   \<and> avg_or_zero [] = 0"
proof -
  have a: "\<forall>ch. calls_iv (expiration_average ch) = avg_or_zero (side_iv (calls ch))
          \<and> puts_iv (expiration_average ch) = avg_or_zero (side_iv (puts ch))
          \<and> average_iv (expiration_average ch) =
             (if side_iv (calls ch) = [] \<and> side_iv (puts ch) = [] then 0
              else (avg_or_zero (side_iv (calls ch)) + avg_or_zero (side_iv (puts ch))) / 2)"
    by (simp add: expiration_average_def Let_def)
  show ?thesis
    using a expiration_average_positive_iff side_iv_eq
    by (simp add: implied_volatility_of_def iv_loop_eq avg_or_zero_def)
qed

theorem implied_volatility_average_witness:
  "overall_average_iv (implied_volatility_of ''AAPL'' ''now''
      [(''2024-01-19'', ex_chain_both), (''2024-02-16'', ex_chain_none)]) = 7/40"
proof -
  from implied_volatility_average[of "''AAPL''" "''now''"
      "[(''2024-01-19'', ex_chain_both), (''2024-02-16'', ex_chain_none)]"]
  have "overall_average_iv (implied_volatility_of ''AAPL'' ''now''
      [(''2024-01-19'', ex_chain_both), (''2024-02-16'', ex_chain_none)]) =
      avg_or_zero (filter (\<lambda>x. 0 < x) (map (\<lambda>(date, ch). average_iv (expiration_average ch))
        [(''2024-01-19'', ex_chain_both), (''2024-02-16'', ex_chain_none)]))"
    by blast
  then show ?thesis by (simp add: ex_values avg_or_zero_def)
qed

section \<open>Properties of the source clients\<close>

lemma validate_ticker_invalid:
  "\<not> truthy ticker \<or> \<not> is_str ticker \<Longrightarrow>
   validate_ticker u ticker = Inl (ValueError ''Ticker must be a non-empty string'')"
  by (cases ticker) simp_all

lemma validate_ticker_valid:
  "truthy ticker \<Longrightarrow> is_str ticker \<Longrightarrow> \<exists>s. ticker = PStr s \<and> validate_ticker u ticker = Inr (u s)"
  by (cases ticker) simp_all

text \<open>
  Claim C4, as stated, fails: \<open>validate_ticker\<close> raises \<open>ValueError\<close> on the empty string,
  but \<open>get_ticker_info\<close> and \<open>get_cik_from_ticker\<close> do not surface it to their caller: on
  the empty string, on a number and on \<open>None\<close> they return \<open>None\<close>, without touching the
  cache, the rate limiter or the upstream.
\<close>

theorem invalid_ticker_counterexample:
  "validate_ticker upper (PStr []) = Inl (ValueError ''Ticker must be a non-empty string'')
   \<and> get_ticker_info ex_upstream ex_yahoo ex_world (PStr []) = (Inr PNone, ex_yahoo, ex_world)
   \<and> get_ticker_info ex_upstream ex_yahoo ex_world (PInt 5) = (Inr PNone, ex_yahoo, ex_world)
   \<and> get_cik_from_ticker ex_upstream ex_edgar ex_world PNone = (Inr PNone, ex_edgar, ex_world)"
  by (simp add: get_ticker_info_def get_cik_from_ticker_def)

text \<open>
  Claim C4, amended. For every structurally invalid ticker (falsy, such as the empty
  string, or not a string), \<open>validate_ticker\<close> raises \<open>ValueError\<close>, and the source-client
  methods \<open>get_ticker_info\<close>, \<open>get_cik_from_ticker\<close> and \<open>get_filings_metadata\<close> catch it
  and return \<open>None\<close>, leaving the client and the world as they were. A valid ticker
  whose upstream request fails gives \<open>None\<close> as well: invalid input degrades to a null
  result as upstream failures do.
\<close>

theorem invalid_ticker_degrades:
  assumes "\<not> truthy ticker \<or> \<not> is_str ticker"
  shows "validate_ticker (str_upper up) ticker = Inl (ValueError ''Ticker must be a non-empty string'')
     \<and> get_ticker_info up y w ticker = (Inr PNone, y, w)
     \<and> get_cik_from_ticker up a w ticker = (Inr PNone, a, w)
     \<and> get_filings_metadata up a w ticker form_type cnt = (Inr PNone, a, w)
     \<and> (\<forall>ticker' t e. validate_ticker (str_upper up) ticker' = Inr t \<and>
            \<not> truthy (cache_get (y_cache y) (clock w) (''ticker_info_'' @ t) ''STOCK_PRICE'') \<and>
            yf_info up t = Inl e \<longrightarrow>
            fst (get_ticker_info up y w ticker') = Inr PNone)"
proof -
  have v: "validate_ticker (str_upper up) ticker = Inl (ValueError ''Ticker must be a non-empty string'')"
    using assms by (rule validate_ticker_invalid)
  have c: "get_cik_from_ticker up a w ticker = (Inr PNone, a, w)"
    by (simp add: get_cik_from_ticker_def v)
  have f: "get_filings_metadata up a w ticker form_type cnt = (Inr PNone, a, w)"
    by (simp add: get_filings_metadata_def c)
  have u: "\<forall>ticker' t e. validate_ticker (str_upper up) ticker' = Inr t \<and>
            \<not> truthy (cache_get (y_cache y) (clock w) (''ticker_info_'' @ t) ''STOCK_PRICE'') \<and>
            yf_info up t = Inl e \<longrightarrow>
            fst (get_ticker_info up y w ticker') = Inr PNone"
    by (simp add: get_ticker_info_def Let_def split: prod.splits)
  show ?thesis using v c f u by (simp add: get_ticker_info_def)
qed

theorem invalid_ticker_degrades_witness:
  "get_filings_metadata ex_upstream ex_edgar ex_world PNone ''10-K'' 1 = (Inr PNone, ex_edgar, ex_world)
   \<and> get_ticker_info ex_upstream ex_yahoo ex_world (PStr []) = (Inr PNone, ex_yahoo, ex_world)"
proof -
  have h1: "\<not> truthy PNone \<or> \<not> is_str PNone" by simp
  have h2: "\<not> truthy (PStr []) \<or> \<not> is_str (PStr [])" by simp
  from invalid_ticker_degrades[OF h1, of ex_upstream ex_yahoo ex_world ex_edgar "''10-K''" 1]
  have a: "get_filings_metadata ex_upstream ex_edgar ex_world PNone ''10-K'' 1 =
           (Inr PNone, ex_edgar, ex_world)" by blast
  from invalid_ticker_degrades[OF h2, of ex_upstream ex_yahoo ex_world]
  have b: "get_ticker_info ex_upstream ex_yahoo ex_world (PStr []) = (Inr PNone, ex_yahoo, ex_world)"
    by blast
  from a b show ?thesis by (rule conjI)
qed

lemma char_of_vals:
  "char_of (65::nat) = CHR ''A''" "char_of (80::nat) = CHR ''P''" "char_of (76::nat) = CHR ''L''"
  "char_of (48::nat) = CHR ''0''" "char_of (49::nat) = CHR ''1''" "char_of (50::nat) = CHR ''2''"
  "char_of (51::nat) = CHR ''3''" "char_of (53::nat) = CHR ''5''" "char_of (57::nat) = CHR ''9''"
  by (simp_all add: char_of_def bit_Suc_0_iff)

lemma upper_AAPL: "upper ''AAPL'' = ''AAPL''"
  by (simp add: upper_def upper_char_def)

lemma show_examples: "show_int 5 = ''5''" "show_int 320193 = ''320193''"
  by (simp_all add: show_int_def char_of_vals)

lemma zfill_example: "zfill 10 ''320193'' = ''0000320193''"
  by (simp add: zfill_def numeral_eq_Suc)

lemma sec_ttl: "expiry_time ''SEC_FILING'' = 604800"
  by (simp add: expiry_time_def CACHE_EXPIRY_def)

lemma ex_upstream_sel:
  "http_get ex_upstream = ex_http_get" "yf_info ex_upstream = ex_yf_info"
  "isoformat ex_upstream = ex_isoformat" "repr_other ex_upstream = ex_repr"
  "str_upper ex_upstream = upper"
  by (simp_all add: ex_upstream_def)

lemma cik_call:
  "get_cik_from_ticker ex_upstream ex_edgar ex_world (PStr ''AAPL'') =
     (Inr (PStr ''0000320193''),
      \<lparr>e_cache = Some (ex_seed @ [(''cik_AAPL'', \<lparr>timestamp = 10001 / 10, cvalue = PStr ''0000320193''\<rparr>)]),
       e_last_request_time = 10001 / 10\<rparr>,
      \<lparr>clock = 10001 / 10, upstream_log = [company_tickers_url]\<rparr>)"
  by (simp add: get_cik_from_ticker_def upper_AAPL cache_get_def not_cache_def ex_edgar_def
      ex_world_def ex_seed_def respect_rate_limit_def SEC_EDGAR_API_LIMIT_def Let_def
      ex_upstream_sel ex_http_get_def ex_companies_def dict_get_def py_str_def show_examples
      zfill_example cache_set_def)

lemma ex_extract:
  "extract_recent_filings ex_submissions ''8-K'' 5 (PStr ''AAPL'') (PStr ''0000320193'') = Inr (Some [])"
  by (simp add: extract_recent_filings_def ex_submissions_def dict_get_def)

lemma ex_urls:
  "submissions_url ex_upstream (PStr ''0000320193'') = ex_submissions_url"
  "ex_submissions_url \<noteq> company_tickers_url"
  by (simp_all add: submissions_url_def py_str_def ex_submissions_url_def company_tickers_url_def)

lemma first_call:
  "ex_first_call =
     (Inr (PList []),
      \<lparr>e_cache = Some ex_store1, e_last_request_time = 5002 / 5\<rparr>,
      \<lparr>clock = 5002 / 5, upstream_log = [company_tickers_url, ex_submissions_url]\<rparr>)"
  by (simp add: ex_first_call_def get_filings_metadata_def cik_call py_str_def show_examples
      cache_get_def not_cache_def ex_seed_def respect_rate_limit_def SEC_EDGAR_API_LIMIT_def
      Let_def ex_urls ex_upstream_sel ex_http_get_def ex_extract cache_set_def ex_store1_def)

lemma ex_store1_lookup:
  "map_of ex_store1 ''cik_AAPL'' = Some \<lparr>timestamp = 10001 / 10, cvalue = PStr ''0000320193''\<rparr>"
  "map_of ex_store1 ''filings_AAPL_8-K_5'' = Some \<lparr>timestamp = 5002 / 5, cvalue = PList []\<rparr>"
  "map_of ex_store1 ''filings_MSFT_8-K_5'' = None"
  "ex_store1 \<noteq> []"
  by (simp_all add: ex_store1_def)

lemma cik_call2:
  "get_cik_from_ticker ex_upstream \<lparr>e_cache = Some ex_store1, e_last_request_time = 5002 / 5\<rparr>
      \<lparr>clock = 5302 / 5, upstream_log = [company_tickers_url, ex_submissions_url]\<rparr>
      (PStr ''AAPL'') =
     (Inr (PStr ''0000320193''),
      \<lparr>e_cache = Some ex_store1, e_last_request_time = 5002 / 5\<rparr>,
      \<lparr>clock = 5302 / 5, upstream_log = [company_tickers_url, ex_submissions_url]\<rparr>)"
  by (simp add: get_cik_from_ticker_def upper_AAPL ex_upstream_sel cache_get_def not_cache_def
      ex_store1_lookup sec_ttl)

lemma ex_store_set: 
  "store_set ''filings_AAPL_8-K_5'' \<lparr>timestamp = 2121 / 2, cvalue = PList []\<rparr> ex_store1 = ex_store2"
  by (simp add: ex_store1_def ex_store2_def)

lemma second_call:
  "ex_second_call =
     (Inr (PList []),
      \<lparr>e_cache = Some ex_store2, e_last_request_time = 2121 / 2\<rparr>,
      \<lparr>clock = 2121 / 2,
       upstream_log = [company_tickers_url, ex_submissions_url, ex_submissions_url]\<rparr>)"
  by (simp add: ex_second_call_def first_call later_def get_filings_metadata_def cik_call2
      py_str_def show_examples cache_get_def not_cache_def sec_ttl respect_rate_limit_def
      SEC_EDGAR_API_LIMIT_def Let_def ex_urls ex_upstream_sel ex_http_get_def ex_extract
      cache_set_def ex_store1_lookup ex_store_set)

lemma get_ticker_info_cache_hit:
  assumes "validate_ticker (str_upper up) ticker = Inr t"
    and "truthy (cache_get (y_cache y) (clock w) (''ticker_info_'' @ t) ''STOCK_PRICE'')"
  shows "get_ticker_info up y w ticker =
           (Inr (cache_get (y_cache y) (clock w) (''ticker_info_'' @ t) ''STOCK_PRICE''), y, w)"
  using assms by (simp add: get_ticker_info_def)

lemma get_cik_from_ticker_cache_hit:
  assumes "validate_ticker (str_upper up) ticker = Inr t"
    and "truthy (cache_get (e_cache a) (clock w) (''cik_'' @ t) ''SEC_FILING'')"
  shows "get_cik_from_ticker up a w ticker =
           (Inr (cache_get (e_cache a) (clock w) (''cik_'' @ t) ''SEC_FILING''), a, w)"
  using assms by (simp add: get_cik_from_ticker_def)

text \<open>
  Claim C8 against the code. At a cache hit with a truthy value, \<open>get_ticker_info\<close> and
  \<open>get_cik_from_ticker\<close> return the cached value and leave the rate limiter and the
  upstream alone (the two lemmas above). But the hit test is \<open>if cached_data:\<close>, and
  \<open>get_filings_metadata\<close> caches the empty list. On a cache that already holds an entry
  (for another ticker), and for a ticker without 8-K filings: the first call stores
  \<open>[]\<close> under \<open>filings_AAPL_8-K_5\<close>; 60 seconds later the key is present and unexpired
  (the cache returns the stored \<open>[]\<close>, where an absent key gives \<open>None\<close>), and still the
  second call passes the rate limiter, which stamps a new \<open>last_request_time\<close>, and
  sends the submissions request upstream once more.
\<close>

theorem filings_metadata_refetches_cached_empty:
  "ex_first_call =
     (Inr (PList []),
      \<lparr>e_cache = Some ex_store1, e_last_request_time = 5002 / 5\<rparr>,
      \<lparr>clock = 5002 / 5, upstream_log = [company_tickers_url, ex_submissions_url]\<rparr>)
   \<and> map_of ex_store1 ''filings_AAPL_8-K_5'' = Some \<lparr>timestamp = 5002 / 5, cvalue = PList []\<rparr>
   \<and> cache_get (Some ex_store1) (5002 / 5 + 60) ''filings_AAPL_8-K_5'' ''SEC_FILING'' = PList []
   \<and> cache_get (Some ex_store1) (5002 / 5 + 60) ''filings_MSFT_8-K_5'' ''SEC_FILING'' = PNone
   \<and> ex_second_call =
     (Inr (PList []),
      \<lparr>e_cache = Some ex_store2, e_last_request_time = 2121 / 2\<rparr>,
      \<lparr>clock = 2121 / 2,
       upstream_log = [company_tickers_url, ex_submissions_url, ex_submissions_url]\<rparr>)"
  by (simp add: first_call second_call cache_get_def not_cache_def ex_store1_lookup sec_ttl)

theorem filings_metadata_refetches_cached_empty_witness:
  "length (upstream_log (snd (snd ex_second_call))) = 3
   \<and> e_last_request_time (fst (snd ex_second_call)) = 2121 / 2"
proof -
  from filings_metadata_refetches_cached_empty
  have e: "ex_second_call =
     (Inr (PList []),
      \<lparr>e_cache = Some ex_store2, e_last_request_time = 2121 / 2\<rparr>,
      \<lparr>clock = 2121 / 2,
       upstream_log = [company_tickers_url, ex_submissions_url, ex_submissions_url]\<rparr>)"
    by blast
  show ?thesis unfolding e by simp
qed

end
